theory Spec2Isabelle
  imports Main "HOL-Library.Word"
begin

unbundle bit_operations_syntax

section \<open>Bytes and slices\<close>

type_synonym byte = "8 word"

text \<open>
  Go's builtin \<^verbatim>\<open>copy(dst[off:], src)\<close>: it copies
  \<open>min (len dst - off) (len src)\<close> bytes and leaves the rest of \<open>dst\<close> as it was.
\<close>

definition copy_at :: "byte list \<Rightarrow> nat \<Rightarrow> byte list \<Rightarrow> byte list" where
  "copy_at dst off src =
     (let n = min (length dst - off) (length src)
      in take off dst @ take n src @ drop (off + n) dst)"

text \<open>The slice expression \<^verbatim>\<open>input[lo:hi]\<close> for \<open>lo \<le> hi \<le> len input\<close>.\<close>

definition slice :: "byte list \<Rightarrow> nat \<Rightarrow> nat \<Rightarrow> byte list" where
  "slice xs lo hi = take (hi - lo) (drop lo xs)"

text \<open>\<^verbatim>\<open>binary.BigEndian.PutUint32\<close> and \<^verbatim>\<open>binary.BigEndian.Uint32\<close>.\<close>

definition PutUint32 :: "32 word \<Rightarrow> byte list" where
  "PutUint32 v = [ucast (drop_bit 24 v), ucast (drop_bit 16 v), ucast (drop_bit 8 v), ucast v]"

definition Uint32 :: "byte list \<Rightarrow> 32 word" where
  "Uint32 b = ucast (b ! 3) OR push_bit 8 (ucast (b ! 2)) OR push_bit 16 (ucast (b ! 1))
                OR push_bit 24 (ucast (b ! 0))"

section \<open>The megolm session export message (goolm/message/sessionExport.go)\<close>

datatype olm_error = ErrBadInput | ErrBadVersion

definition sessionExportVersion :: byte where
  "sessionExportVersion = 0x01"

text \<open>
  \<open>RatchetData\<close> is the array \<^verbatim>\<open>[128]byte\<close>; \<open>PublicKey\<close> is the slice type
  \<^verbatim>\<open>crypto.Ed25519PublicKey\<close>, of any length.
\<close>

record MegolmSessionExport =
  Counter :: "32 word"
  RatchetData :: "byte list"
  PublicKey :: "byte list"

definition Encode :: "MegolmSessionExport \<Rightarrow> byte list" where
  "Encode s =
     (let output = replicate 165 (0 :: byte);
          output = output[0 := sessionExportVersion];
          output = copy_at output 1 (PutUint32 (Counter s));
          output = copy_at output 5 (RatchetData s);
          output = copy_at output 133 (PublicKey s)
      in output)"

text \<open>
  \<open>Decode\<close> writes into its receiver \<open>s\<close>; on an error the receiver is untouched
  and only the error is returned.
\<close>

definition Decode :: "MegolmSessionExport \<Rightarrow> byte list \<Rightarrow> olm_error + MegolmSessionExport" where
  "Decode s input =
     (if length input \<noteq> 165 then Inl ErrBadInput
      else if input ! 0 \<noteq> sessionExportVersion then Inl ErrBadVersion
      else Inr (s\<lparr>Counter := Uint32 (slice input 1 5),
                  RatchetData := copy_at (RatchetData s) 0 (slice input 5 133),
                  PublicKey := drop 133 input\<rparr>))"


section \<open>The SQL crypto store (crypto/sql_store.go)\<close>

subsection \<open>Values, errors and the olm interfaces\<close>

text \<open>
  A \<^verbatim>\<open>time.Time\<close> and an SQL timestamp are a number of microseconds since the Unix
  epoch. \<open>zero_time\<close> is the zero \<^verbatim>\<open>time.Time\<close> (1 January of year 1), the one that
  \<^verbatim>\<open>IsZero\<close> recognises.
\<close>

type_synonym time = int

definition zero_time :: time where
  "zero_time = - 62135596800000000"

definition IsZero :: "time \<Rightarrow> bool" where
  "IsZero t = (t = zero_time)"

record RoomKeyWithheldEventContent =
  RoomID :: string
  Algorithm :: string
  SessionID :: string
  SenderKey :: string
  Code :: string
  Reason :: string

text \<open>
  The error values the store returns: an error of the database driver, an error of the
  olm backend (\<^verbatim>\<open>Pickle\<close>, \<^verbatim>\<open>Unpickle\<close>), an error of the JSON codec, the
  errors the store builds itself, \<^verbatim>\<open>fmt.Errorf("...: %w", err)\<close>, and the withheld
  content, which \<^verbatim>\<open>GetGroupSession\<close> returns as its error value.
\<close>

datatype error =
    DriverError string
  | BackendError string
  | JSONError string
  | UnsupportedDialect
  | MissingRoomAndSender
  | Wrapped string error
  | WithheldError RoomKeyWithheldEventContent

text \<open>
  The constants of the \<^verbatim>\<open>event\<close> and \<^verbatim>\<open>id\<close> packages that the store writes.
  Only their being fixed strings matters below.
\<close>

definition RoomKeyWithheldBeeperRedacted :: string where
  "RoomKeyWithheldBeeperRedacted = ''com.beeper.redacted''"

definition AlgorithmMegolmV1 :: string where
  "AlgorithmMegolmV1 = ''m.megolm.v1.aes-sha2''"

text \<open>
  The olm backend and the JSON codec are interfaces implemented outside this file; the store
  only calls them. \<open>'i\<close> is the backend's inbound group session, \<open>'r\<close> the
  \<^verbatim>\<open>RatchetSafety\<close> struct. \<open>igs_Unpickle\<close> is \<^verbatim>\<open>NewBlankInboundGroupSession\<close> followed
  by \<^verbatim>\<open>Unpickle\<close>; \<open>rs_Zero\<close> is the zero value of \<^verbatim>\<open>RatchetSafety\<close>.
\<close>

record ('i, 'r) igs_backend =
  igs_Pickle :: "'i \<Rightarrow> byte list \<Rightarrow> error + byte list"
  igs_Unpickle :: "byte list \<Rightarrow> byte list \<Rightarrow> error + 'i"
  igs_ID :: "'i \<Rightarrow> string"
  rs_Marshal :: "'r \<Rightarrow> error + byte list"
  rs_Unmarshal :: "byte list \<Rightarrow> error + 'r"
  rs_Zero :: 'r


record 's OlmSession =
  Internal :: 's
  CreationTime :: time
  LastEncryptedTime :: time
  LastDecryptedTime :: time

record ('i, 'r) InboundGroupSession =
  Internal :: 'i
  SigningKey :: string
  SenderKey :: string
  RoomID :: string
  ForwardingChains :: "string list"
  RatchetSafety :: 'r
  ReceivedAt :: time
  MaxAge :: int
  MaxMessages :: int
  IsScheduled :: bool
  KeyBackupVersion :: string

subsection \<open>The database\<close>

text \<open>
  The three tables the statements below touch. A nullable column is an \<open>option\<close>,
  \<open>None\<close> being \<^verbatim>\<open>NULL\<close>. A table whose statements depend on the order of its rows
  (\<^verbatim>\<open>ORDER BY\<close>, \<^verbatim>\<open>RETURNING\<close>) is the list of its rows; the message index, which is
  only read and written by key, is a map from its primary key.
\<close>

record olm_session_row =
  os_account_id :: string
  os_session_id :: string
  os_sender_key :: string
  os_session :: "byte list"
  os_created_at :: time
  os_last_encrypted :: time
  os_last_decrypted :: time

record megolm_inbound_row =
  r_account_id :: string
  r_session_id :: string
  r_sender_key :: "string option"
  r_signing_key :: "string option"
  r_room_id :: string
  r_session :: "byte list option"
  r_forwarding_chains :: "string option"
  r_withheld_code :: "string option"
  r_withheld_reason :: "string option"
  r_ratchet_safety :: "byte list option"
  r_received_at :: "time option"
  r_max_age :: "int option"
  r_max_messages :: "int option"
  r_is_scheduled :: bool
  r_key_backup_version :: string

datatype dialect = Postgres | SQLite | OtherDialect

text \<open>
  \<open>failing\<close> is the state of the connection: when it holds an error, every statement
  fails with it and changes nothing, which is the \<^verbatim>\<open>err != nil\<close> branch after each
  \<^verbatim>\<open>Exec\<close>, \<^verbatim>\<open>Query\<close> and \<^verbatim>\<open>QueryRow\<close>.
\<close>

record database =
  Dialect :: dialect
  failing :: "string option"
  crypto_olm_session :: "olm_session_row list"
  crypto_megolm_inbound_session :: "megolm_inbound_row list"
  crypto_message_index :: "(string \<times> string \<times> 64 word) \<rightharpoonup> (string \<times> 64 word)"

record 's SQLCryptoStore =
  DB :: database
  AccountID :: string
  PickleKey :: "byte list"
  olmSessionCache :: "string \<rightharpoonup> (string \<rightharpoonup> 's OlmSession)"

subsection \<open>Pairwise sessions\<close>






subsection \<open>Inbound group sessions\<close>

text \<open>\<^verbatim>\<open>datePtr\<close> and \<^verbatim>\<open>dbutil.NumPtr\<close>: a zero value is stored as \<^verbatim>\<open>NULL\<close>.\<close>

definition datePtr :: "time \<Rightarrow> time option" where
  "datePtr t = (if IsZero t then None else Some t)"

definition NumPtr :: "int \<Rightarrow> int option" where
  "NumPtr val = (if val = 0 then None else Some val)"

text \<open>\<^verbatim>\<open>strings.Join(elems, ",")\<close> and \<^verbatim>\<open>strings.Split(s, ",")\<close>.\<close>

fun join_commas :: "string list \<Rightarrow> string" where
  "join_commas [] = []"
| "join_commas [x] = x"
| "join_commas (x # y # ys) = x @ '','' @ join_commas (y # ys)"

fun split_commas :: "string \<Rightarrow> string list" where
  "split_commas [] = [[]]"
| "split_commas (c # cs) =
     (if c = CHR '','' then [] # split_commas cs
      else (case split_commas cs of
              [] \<Rightarrow> [[c]]
            | w # ws \<Rightarrow> (c # w) # ws))"

text \<open>Reading a nullable column through \<^verbatim>\<open>sql.NullString\<close>, \<^verbatim>\<open>sql.NullTime\<close>,
  \<^verbatim>\<open>sql.NullInt64\<close> or into a \<^verbatim>\<open>[]byte\<close>: \<^verbatim>\<open>NULL\<close> reads as the zero value.\<close>

definition NullString_String :: "string option \<Rightarrow> string" where
  "NullString_String v = (case v of None \<Rightarrow> [] | Some x \<Rightarrow> x)"

definition NullTime_Time :: "time option \<Rightarrow> time" where
  "NullTime_Time v = (case v of None \<Rightarrow> zero_time | Some x \<Rightarrow> x)"

definition NullInt64_Int64 :: "int option \<Rightarrow> int" where
  "NullInt64_Int64 v = (case v of None \<Rightarrow> 0 | Some x \<Rightarrow> x)"

definition scan_bytes :: "byte list option \<Rightarrow> byte list" where
  "scan_bytes v = (case v of None \<Rightarrow> [] | Some x \<Rightarrow> x)"

text \<open>
  The statement of \<^verbatim>\<open>PutGroupSession\<close>:
  \<^verbatim>\<open>INSERT INTO crypto_megolm_inbound_session (...) VALUES (...)
  ON CONFLICT (session_id, account_id) DO UPDATE SET withheld_code=NULL,
  withheld_reason=NULL, sender_key=excluded.sender_key, ...\<close>.
  \<open>new\<close> is the row of the \<^verbatim>\<open>VALUES\<close> clause, its two withheld columns at their
  default \<^verbatim>\<open>NULL\<close>.
\<close>

definition upsert_inbound_session :: "database \<Rightarrow> megolm_inbound_row \<Rightarrow> error + database" where
  "upsert_inbound_session db new =
     (case failing db of
        Some e \<Rightarrow> Inl (DriverError e)
      | None \<Rightarrow>
          (let conflict = (\<lambda>r. r_session_id r = r_session_id new \<and> r_account_id r = r_account_id new);
               rows = crypto_megolm_inbound_session db
           in if list_ex conflict rows
              then Inr (db\<lparr>crypto_megolm_inbound_session :=
                     map (\<lambda>r. if conflict r
                               then r\<lparr>r_withheld_code := None, r_withheld_reason := None,
                                      r_sender_key := r_sender_key new,
                                      r_signing_key := r_signing_key new,
                                      r_room_id := r_room_id new, r_session := r_session new,
                                      r_forwarding_chains := r_forwarding_chains new,
                                      r_ratchet_safety := r_ratchet_safety new,
                                      r_received_at := r_received_at new,
                                      r_max_age := r_max_age new,
                                      r_max_messages := r_max_messages new,
                                      r_is_scheduled := r_is_scheduled new,
                                      r_key_backup_version := r_key_backup_version new\<rparr>
                               else r) rows\<rparr>)
              else Inr (db\<lparr>crypto_megolm_inbound_session := rows @ [new]\<rparr>)))"

text \<open>
  \<^verbatim>\<open>PutGroupSession\<close>. The pickle and the marshalled ratchet safety are non-nil byte
  slices, so both columns are written non-\<^verbatim>\<open>NULL\<close>.
\<close>

definition PutGroupSession ::
  "('i, 'r) igs_backend \<Rightarrow> 's SQLCryptoStore \<Rightarrow> ('i, 'r) InboundGroupSession
     \<Rightarrow> error option \<times> 's SQLCryptoStore" where
  "PutGroupSession B store session =
     (case igs_Pickle B (InboundGroupSession.Internal session) (PickleKey store) of
        Inl err \<Rightarrow> (Some err, store)
      | Inr sessionBytes \<Rightarrow>
          (let forwardingChains = join_commas (ForwardingChains session)
           in case rs_Marshal B (RatchetSafety session) of
                Inl err \<Rightarrow>
                  (Some (Wrapped ''failed to marshal ratchet safety info'' err), store)
              | Inr ratchetSafety \<Rightarrow>
                  (case upsert_inbound_session (DB store)
                          \<lparr>r_account_id = AccountID store,
                           r_session_id = igs_ID B (InboundGroupSession.Internal session),
                           r_sender_key = Some (InboundGroupSession.SenderKey session),
                           r_signing_key = Some (SigningKey session),
                           r_room_id = InboundGroupSession.RoomID session,
                           r_session = Some sessionBytes,
                           r_forwarding_chains = Some forwardingChains,
                           r_withheld_code = None,
                           r_withheld_reason = None,
                           r_ratchet_safety = Some ratchetSafety,
                           r_received_at = datePtr (ReceivedAt session),
                           r_max_age = NumPtr (MaxAge session),
                           r_max_messages = NumPtr (MaxMessages session),
                           r_is_scheduled = IsScheduled session,
                           r_key_backup_version = KeyBackupVersion session\<rparr> of
                     Inl err \<Rightarrow> (Some err, store)
                   | Inr db' \<Rightarrow> (None, store\<lparr>DB := db'\<rparr>))))"

text \<open>
  \<^verbatim>\<open>postScanInboundGroupSession\<close>. Its named result \<^verbatim>\<open>safety\<close> is never assigned
  (the JSON is unmarshalled into the local \<^verbatim>\<open>rs\<close>), so the zero value is returned. On
  an error both callers drop the other results, so an error is all that is returned here.
\<close>

definition postScanInboundGroupSession ::
  "('i, 'r) igs_backend \<Rightarrow> 's SQLCryptoStore \<Rightarrow> byte list \<Rightarrow> byte list \<Rightarrow> string
     \<Rightarrow> error + ('i \<times> string list \<times> 'r)" where
  "postScanInboundGroupSession B store sessionBytes ratchetSafetyBytes forwardingChains =
     (case igs_Unpickle B sessionBytes (PickleKey store) of
        Inl err \<Rightarrow> Inl err
      | Inr igs \<Rightarrow>
          (let chainList = (if forwardingChains \<noteq> [] then split_commas forwardingChains else [])
           in if length ratchetSafetyBytes > 0
              then (case rs_Unmarshal B ratchetSafetyBytes of
                      Inl err \<Rightarrow> Inl (Wrapped ''failed to unmarshal ratchet safety info'' err)
                    | Inr rs \<Rightarrow> Inr (igs, chainList, rs_Zero B))
              else Inr (igs, chainList, rs_Zero B)))"

text \<open>
  \<^verbatim>\<open>GetGroupSession\<close> returns a pair of a session pointer and an error; \<open>None\<close> is
  \<^verbatim>\<open>nil\<close> in both places.
\<close>

definition GetGroupSession ::
  "('i, 'r) igs_backend \<Rightarrow> 's SQLCryptoStore \<Rightarrow> string \<Rightarrow> string
     \<Rightarrow> ('i, 'r) InboundGroupSession option \<times> error option" where
  "GetGroupSession B store roomID sessionID =
     (case failing (DB store) of
        Some e \<Rightarrow> (None, Some (DriverError e))
      | None \<Rightarrow>
          (case find (\<lambda>r. r_room_id r = roomID \<and> r_session_id r = sessionID
                           \<and> r_account_id r = AccountID store)
                  (crypto_megolm_inbound_session (DB store)) of
             None \<Rightarrow> (None, None)
           | Some row \<Rightarrow>
               (case r_withheld_code row of
                  Some withheldCode \<Rightarrow>
                    (None, Some (WithheldError
                       \<lparr>RoomKeyWithheldEventContent.RoomID = roomID,
                        Algorithm = AlgorithmMegolmV1,
                        RoomKeyWithheldEventContent.SessionID = sessionID,
                        RoomKeyWithheldEventContent.SenderKey = NullString_String (r_sender_key row),
                        Code = withheldCode,
                        Reason = NullString_String (r_withheld_reason row)\<rparr>))
                | None \<Rightarrow>
                    (case postScanInboundGroupSession B store (scan_bytes (r_session row))
                            (scan_bytes (r_ratchet_safety row))
                            (NullString_String (r_forwarding_chains row)) of
                       Inl err \<Rightarrow> (None, Some err)
                     | Inr (igs, chainList, rs) \<Rightarrow>
                         (Some \<lparr>InboundGroupSession.Internal = igs,
                                SigningKey = NullString_String (r_signing_key row),
                                InboundGroupSession.SenderKey = NullString_String (r_sender_key row),
                                InboundGroupSession.RoomID = roomID,
                                ForwardingChains = chainList,
                                RatchetSafety = rs,
                                ReceivedAt = NullTime_Time (r_received_at row),
                                MaxAge = NullInt64_Int64 (r_max_age row),
                                MaxMessages = NullInt64_Int64 (r_max_messages row),
                                IsScheduled = r_is_scheduled row,
                                KeyBackupVersion = r_key_backup_version row\<rparr>, None)))))"

text \<open>
  The five redacting statements share their \<^verbatim>\<open>SET\<close> clause,
  \<^verbatim>\<open>UPDATE crypto_megolm_inbound_session SET withheld_code=$1, withheld_reason=$2,
  session=NULL, forwarding_chains=NULL WHERE ... RETURNING session_id\<close>,
  and differ in their \<^verbatim>\<open>WHERE\<close> clause, the argument \<open>cond\<close>.
\<close>

definition redact_where ::
  "database \<Rightarrow> (megolm_inbound_row \<Rightarrow> bool) \<Rightarrow> string \<Rightarrow> string
     \<Rightarrow> error + (string list \<times> database)" where
  "redact_where db cond code reason =
     (case failing db of
        Some e \<Rightarrow> Inl (DriverError e)
      | None \<Rightarrow>
          Inr (map r_session_id (filter cond (crypto_megolm_inbound_session db)),
               db\<lparr>crypto_megolm_inbound_session :=
                    map (\<lambda>r. if cond r
                              then r\<lparr>r_withheld_code := Some code, r_withheld_reason := Some reason,
                                     r_session := None, r_forwarding_chains := None\<rparr>
                              else r)
                      (crypto_megolm_inbound_session db)\<rparr>))"

definition RedactGroupSession ::
  "'s SQLCryptoStore \<Rightarrow> string \<Rightarrow> string \<Rightarrow> string \<Rightarrow> error option \<times> 's SQLCryptoStore" where
  "RedactGroupSession store roomID sessionID reason =
     (case redact_where (DB store)
             (\<lambda>r. r_session_id r = sessionID \<and> r_account_id r = AccountID store
                   \<and> r_session r \<noteq> None)
             RoomKeyWithheldBeeperRedacted (''Session redacted: '' @ reason) of
        Inl err \<Rightarrow> (Some err, store)
      | Inr (ids, db') \<Rightarrow> (None, store\<lparr>DB := db'\<rparr>))"

definition RedactGroupSessions ::
  "'s SQLCryptoStore \<Rightarrow> string \<Rightarrow> string \<Rightarrow> string
     \<Rightarrow> (error + string list) \<times> 's SQLCryptoStore" where
  "RedactGroupSessions store roomID senderKey reason =
     (if roomID = [] \<and> senderKey = [] then (Inl MissingRoomAndSender, store)
      else case redact_where (DB store)
             (\<lambda>r. (r_room_id r = roomID \<or> roomID = [])
                   \<and> (r_sender_key r = Some senderKey \<or> senderKey = [])
                   \<and> r_account_id r = AccountID store
                   \<and> r_session r \<noteq> None \<and> r_is_scheduled r = False
                   \<and> r_received_at r \<noteq> None)
             RoomKeyWithheldBeeperRedacted (''Session redacted: '' @ reason) of
        Inl err \<Rightarrow> (Inl err, store)
      | Inr (ids, db') \<Rightarrow> (Inr ids, store\<lparr>DB := db'\<rparr>))"

text \<open>
  The two conditions of \<^verbatim>\<open>RedactExpiredGroupSessions\<close> on the times, \<open>now\<close> being
  the database's clock. Postgres:
  \<^verbatim>\<open>received_at + 2 * (max_age * interval '1 millisecond') < now()\<close>.
  SQLite: \<^verbatim>\<open>unixepoch(received_at) + (2 * max_age / 1000) < unixepoch(date('now'))\<close>,
  in whole seconds, the integer division truncating towards zero and \<^verbatim>\<open>date('now')\<close>
  being the start of the current day.
\<close>

definition expired_postgres :: "time \<Rightarrow> time \<Rightarrow> int \<Rightarrow> bool" where
  "expired_postgres now received_at max_age = (received_at + 2 * (max_age * 1000) < now)"

definition sqlite_div :: "int \<Rightarrow> int \<Rightarrow> int" where
  "sqlite_div a b = sgn a * sgn b * (\<bar>a\<bar> div \<bar>b\<bar>)"

definition unixepoch :: "time \<Rightarrow> int" where
  "unixepoch t = t div 1000000"

definition date_of :: "time \<Rightarrow> time" where
  "date_of t = (t div 86400000000) * 86400000000"

definition expired_sqlite :: "time \<Rightarrow> time \<Rightarrow> int \<Rightarrow> bool" where
  "expired_sqlite now received_at max_age =
     (unixepoch received_at + sqlite_div (2 * max_age) 1000 < unixepoch (date_of now))"

definition expired_where ::
  "(time \<Rightarrow> time \<Rightarrow> int \<Rightarrow> bool) \<Rightarrow> string \<Rightarrow> time \<Rightarrow> megolm_inbound_row \<Rightarrow> bool" where
  "expired_where expired account now r =
     (r_account_id r = account \<and> r_session r \<noteq> None \<and> r_is_scheduled r = False
      \<and> (case r_received_at r of
            None \<Rightarrow> False
          | Some received_at \<Rightarrow>
              (case r_max_age r of
                 None \<Rightarrow> False
               | Some max_age \<Rightarrow> expired now received_at max_age)))"

definition RedactExpiredGroupSessions ::
  "'s SQLCryptoStore \<Rightarrow> time \<Rightarrow> (error + string list) \<times> 's SQLCryptoStore" where
  "RedactExpiredGroupSessions store now =
     (case (case Dialect (DB store) of
              Postgres \<Rightarrow> Inr (expired_where expired_postgres (AccountID store) now)
            | SQLite \<Rightarrow> Inr (expired_where expired_sqlite (AccountID store) now)
            | OtherDialect \<Rightarrow> Inl UnsupportedDialect) of
        Inl err \<Rightarrow> (Inl err, store)
      | Inr query \<Rightarrow>
          (case redact_where (DB store) query RoomKeyWithheldBeeperRedacted
                  ''Session redacted: expired'' of
             Inl err \<Rightarrow> (Inl err, store)
           | Inr (ids, db') \<Rightarrow> (Inr ids, store\<lparr>DB := db'\<rparr>)))"

definition RedactOutdatedGroupSessions ::
  "'s SQLCryptoStore \<Rightarrow> (error + string list) \<times> 's SQLCryptoStore" where
  "RedactOutdatedGroupSessions store =
     (case redact_where (DB store)
             (\<lambda>r. r_account_id r = AccountID store \<and> r_session r \<noteq> None
                   \<and> r_received_at r = None)
             RoomKeyWithheldBeeperRedacted ''Session redacted: outdated'' of
        Inl err \<Rightarrow> (Inl err, store)
      | Inr (ids, db') \<Rightarrow> (Inr ids, store\<lparr>DB := db'\<rparr>))"

text \<open>
  \<^verbatim>\<open>PutWithheldGroupSession\<close>:
  \<^verbatim>\<open>INSERT INTO crypto_megolm_inbound_session (session_id, sender_key, room_id,
  withheld_code, withheld_reason, received_at, account_id) VALUES (...)
  ON CONFLICT (session_id, account_id) DO NOTHING\<close>,
  the columns it does not name at their defaults. \<open>now\<close> is \<^verbatim>\<open>time.Now().UTC()\<close>.
\<close>

definition PutWithheldGroupSession ::
  "'s SQLCryptoStore \<Rightarrow> time \<Rightarrow> RoomKeyWithheldEventContent \<Rightarrow> error option \<times> 's SQLCryptoStore" where
  "PutWithheldGroupSession store now content =
     (case failing (DB store) of
        Some e \<Rightarrow> (Some (DriverError e), store)
      | None \<Rightarrow>
          (let rows = crypto_megolm_inbound_session (DB store)
           in if list_ex (\<lambda>r. r_session_id r = RoomKeyWithheldEventContent.SessionID content
                               \<and> r_account_id r = AccountID store) rows
              then (None, store)
              else (None, store\<lparr>DB := (DB store)\<lparr>crypto_megolm_inbound_session := rows @
                     [\<lparr>r_account_id = AccountID store,
                       r_session_id = RoomKeyWithheldEventContent.SessionID content,
                       r_sender_key = Some (RoomKeyWithheldEventContent.SenderKey content),
                       r_signing_key = None,
                       r_room_id = RoomKeyWithheldEventContent.RoomID content,
                       r_session = None,
                       r_forwarding_chains = None,
                       r_withheld_code = Some (Code content),
                       r_withheld_reason = Some (Reason content),
                       r_ratchet_safety = None,
                       r_received_at = Some now,
                       r_max_age = None,
                       r_max_messages = None,
                       r_is_scheduled = False,
                       r_key_backup_version = []\<rparr>]\<rparr>\<rparr>)))"

text \<open>
  The exclusivity of the session state and the withheld code, over all rows of the inbound
  session table.
\<close>

definition withheld_exclusive :: "database \<Rightarrow> bool" where
  "withheld_exclusive db =
     list_all (\<lambda>r. (r_session r \<noteq> None) = (r_withheld_code r = None))
       (crypto_megolm_inbound_session db)"

subsection \<open>The message index\<close>

text \<open>
  \<^verbatim>\<open>validateQuery\<close>:
  \<^verbatim>\<open>INSERT INTO crypto_message_index (...) VALUES ($1, $2, $3, $4, $5)
  ON CONFLICT (sender_key, session_id, "index") DO UPDATE SET sender_key=excluded.sender_key
  RETURNING event_id, timestamp\<close>.
  On a conflict the key column is rewritten with the value it has, and the row that is
  there is returned.
\<close>

definition validateQuery ::
  "database \<Rightarrow> string \<Rightarrow> string \<Rightarrow> 64 word \<Rightarrow> string \<Rightarrow> 64 word
     \<Rightarrow> error + ((string \<times> 64 word) \<times> database)" where
  "validateQuery db senderKey sessionID index eventID timestamp =
     (case failing db of
        Some e \<Rightarrow> Inl (DriverError e)
      | None \<Rightarrow>
          (case crypto_message_index db (senderKey, sessionID, index) of
             None \<Rightarrow>
               Inr ((eventID, timestamp),
                    db\<lparr>crypto_message_index :=
                         (crypto_message_index db)((senderKey, sessionID, index)
                            \<mapsto> (eventID, timestamp))\<rparr>)
           | Some row \<Rightarrow> Inr (row, db)))"

definition ValidateMessageIndex ::
  "'s SQLCryptoStore \<Rightarrow> string \<Rightarrow> string \<Rightarrow> string \<Rightarrow> 64 word \<Rightarrow> 64 word
     \<Rightarrow> (bool \<times> error option) \<times> 's SQLCryptoStore" where
  "ValidateMessageIndex store senderKey sessionID eventID index timestamp =
     (case validateQuery (DB store) senderKey sessionID index eventID timestamp of
        Inl err \<Rightarrow> ((False, Some err), store)
      | Inr ((expectedEventID, expectedTimestamp), db') \<Rightarrow>
          (if expectedEventID \<noteq> eventID \<or> expectedTimestamp \<noteq> timestamp
           then ((False, None), store\<lparr>DB := db'\<rparr>)
           else ((True, None), store\<lparr>DB := db'\<rparr>)))"

text \<open>
  A run of calls of \<^verbatim>\<open>ValidateMessageIndex\<close> on one store, as the decryption of a
  stream of events makes them. A call is its arguments
  \<open>(senderKey, sessionID, eventID, index, timestamp)\<close>; the answers are collected in order.
\<close>

fun ValidateMessageIndex_run ::
  "'s SQLCryptoStore \<Rightarrow> (string \<times> string \<times> string \<times> 64 word \<times> 64 word) list
     \<Rightarrow> (bool \<times> error option) list \<times> 's SQLCryptoStore" where
  "ValidateMessageIndex_run store [] = ([], store)"
| "ValidateMessageIndex_run store ((senderKey, sessionID, eventID, index, timestamp) # calls) =
     (let (res, store1) = ValidateMessageIndex store senderKey sessionID eventID index timestamp;
          (ress, store2) = ValidateMessageIndex_run store1 calls
      in (res # ress, store2))"

section \<open>Decryption failures in the sync pipeline (hicli/sync.go)\<close>

text \<open>
  A Go error value here is one of the sentinel errors of the \<^verbatim>\<open>crypto\<close>, \<^verbatim>\<open>olm\<close>
  and \<^verbatim>\<open>event\<close> packages, or a wrapper (\<^verbatim>\<open>fmt.Errorf("...: %w", err)\<close>) around
  another error. \<^verbatim>\<open>errors.Is\<close> follows the chain of wrapped errors until one matches
  the target.
\<close>

datatype sentinel =
    NoSessionFound
  | UnknownMessageIndex
  | ErrGroupSessionWithheld
  | DuplicateMessageIndex
  | ErrContentAlreadyParsed
  | OtherError string

datatype go_error = Sentinel sentinel | Wrap string go_error

fun errors_Is :: "go_error \<Rightarrow> sentinel \<Rightarrow> bool" where
  "errors_Is (Sentinel s) target = (s = target)"
| "errors_Is (Wrap msg err) target = errors_Is err target"

text \<open>The sentinel at the end of the chain.\<close>

fun cause :: "go_error \<Rightarrow> sentinel" where
  "cause (Sentinel s) = s"
| "cause (Wrap msg err) = cause err"

definition isDecryptionErrorRetryable :: "go_error \<Rightarrow> bool" where
  "isDecryptionErrorRetryable err =
     (errors_Is err NoSessionFound \<or> errors_Is err UnknownMessageIndex
      \<or> errors_Is err ErrGroupSessionWithheld)"

text \<open>
  An \<^verbatim>\<open>event.Type\<close> is a type name and a class; the two types \<open>processEvent\<close>
  compares with are message events.
\<close>

datatype event_class = MessageEventType | StateEventType | EphemeralEventType | OtherEventType

type_synonym event_type = "string \<times> event_class"

definition EventEncrypted :: event_type where
  "EventEncrypted = (''m.room.encrypted'', MessageEventType)"

definition EventRedaction :: event_type where
  "EventRedaction = (''m.room.redaction'', MessageEventType)"

text \<open>
  What \<open>processEvent\<close> reads of a \<^verbatim>\<open>event.Event\<close>: \<open>MegolmCiphertext\<close> is
  \<^verbatim>\<open>evt.Content.AsEncrypted().MegolmCiphertext\<close>, \<open>ContentRedacts\<close> the
  \<^verbatim>\<open>redacts\<close> field of the raw content, \<open>VeryRaw\<close> the raw content.
\<close>

record Event =
  ID :: string
  Type :: event_type
  RoomID :: string
  Sender :: string
  Redacts :: string
  ContentRedacts :: string
  VeryRaw :: "byte list"
  MegolmCiphertext :: "byte list"

text \<open>The fields of \<^verbatim>\<open>database.Event\<close> and \<^verbatim>\<open>database.SessionRequest\<close> in use.\<close>

record db_Event =
  RowID :: int
  EventID :: string
  MegolmSessionID :: string
  RedactedBy :: string
  Content :: "byte list"
  Decrypted :: "byte list"
  DecryptedType :: string
  DecryptionError :: string

record SessionRequest =
  RoomID :: string
  SessionID :: string
  Sender :: string
  MinIndex :: "32 word"

text \<open>
  The collaborators of \<open>processEvent\<close> that live outside this file: the event table
  (\<^verbatim>\<open>h.DB.Event.GetByID\<close>, \<^verbatim>\<open>Upsert\<close>, which assigns the row id it returns),
  \<^verbatim>\<open>database.MautrixToEvent\<close>, the parsing of the content
  (\<^verbatim>\<open>evt.Content.ParseRaw\<close>), \<^verbatim>\<open>h.Crypto.DecryptMegolmEvent\<close>, the removal of the
  reply fallback, \<^verbatim>\<open>sjson.SetBytes\<close> on the \<^verbatim>\<open>redacts\<close> field,
  \<^verbatim>\<open>crypto.ParseMegolmMessageIndex\<close> and the \<^verbatim>\<open>Error()\<close> text of an error.
\<close>

record hicli_env =
  GetByID :: "string \<Rightarrow> go_error + db_Event option"
  Upsert :: "db_Event \<Rightarrow> go_error + int"
  MautrixToEvent :: "Event \<Rightarrow> db_Event"
  ParseRaw :: "Event \<Rightarrow> go_error option"
  DecryptMegolmEvent :: "Event \<Rightarrow> go_error + Event"
  removeReplyFallback :: "Event \<Rightarrow> byte list option"
  SetRedacts :: "Event \<Rightarrow> go_error + Event"
  ParseMegolmMessageIndex :: "byte list \<Rightarrow> 64 word \<times> go_error option"
  ErrorText :: "go_error \<Rightarrow> string"

text \<open>
  \<^verbatim>\<open>decryptEvent\<close> returns the decrypted event, its content (without the reply fallback
  when there was one) and the name of its type.
\<close>

definition decryptEvent ::
  "hicli_env \<Rightarrow> Event \<Rightarrow> go_error + (Event \<times> byte list \<times> string)" where
  "decryptEvent env evt =
     (case (case ParseRaw env evt of
              None \<Rightarrow> None
            | Some err \<Rightarrow> if \<not> errors_Is err ErrContentAlreadyParsed then Some err else None) of
        Some err \<Rightarrow> Inl err
      | None \<Rightarrow>
          (case DecryptMegolmEvent env evt of
             Inl err \<Rightarrow> Inl err
           | Inr decrypted \<Rightarrow>
               (case removeReplyFallback env decrypted of
                  Some withoutFallback \<Rightarrow> Inr (decrypted, withoutFallback, fst (Type decrypted))
                | None \<Rightarrow> Inr (decrypted, VeryRaw decrypted, fst (Type decrypted)))))"

text \<open>
  The last step of \<open>processEvent\<close>, lines 350 to 362: on a retryable decryption error the
  request of the session is looked up in the queue, or created with the room, the session and
  the sender (its \<open>MinIndex\<close> being the zero value), its \<open>MinIndex\<close> is set to the minimum of
  the parsed index, converted to \<^verbatim>\<open>uint32\<close>, and of its own \<open>MinIndex\<close>, and it is put
  in the queue.
\<close>

definition enqueue_retry ::
  "hicli_env \<Rightarrow> Event \<Rightarrow> db_Event \<Rightarrow> go_error option \<Rightarrow> (string \<rightharpoonup> SessionRequest)
     \<Rightarrow> (string \<rightharpoonup> SessionRequest)" where
  "enqueue_retry env evt dbEvt decryptionErr decryptionQueue =
     (case decryptionErr of
        None \<Rightarrow> decryptionQueue
      | Some err \<Rightarrow>
          if isDecryptionErrorRetryable err
          then (let req = (case decryptionQueue (MegolmSessionID dbEvt) of
                             Some req \<Rightarrow> req
                           | None \<Rightarrow> \<lparr>SessionRequest.RoomID = Event.RoomID evt,
                                       SessionID = MegolmSessionID dbEvt,
                                       SessionRequest.Sender = Event.Sender evt,
                                       MinIndex = 0\<rparr>);
                    (minIndex, _) = ParseMegolmMessageIndex env (MegolmCiphertext evt);
                    req = req\<lparr>MinIndex := min (ucast minIndex) (MinIndex req)\<rparr>
                in decryptionQueue(MegolmSessionID dbEvt \<mapsto> req))
          else decryptionQueue)"

text \<open>
  \<open>processEvent\<close> returns the database event (a pointer, \<open>None\<close> being \<^verbatim>\<open>nil\<close>) and an
  error, and mutates the queue it is given. \<^verbatim>\<open>cacheMedia\<close>, which only writes the media
  cache and returns nothing, is left out.
\<close>

definition processEvent ::
  "hicli_env \<Rightarrow> Event \<Rightarrow> (string \<rightharpoonup> SessionRequest) \<Rightarrow> bool
     \<Rightarrow> (db_Event option \<times> go_error option) \<times> (string \<rightharpoonup> SessionRequest)" where
  "processEvent env evt decryptionQueue checkDB =
     (case (if checkDB then GetByID env (ID evt) else Inr None) of
        Inl err \<Rightarrow> ((None, Some (Wrap ''failed to check if event exists'' err)), decryptionQueue)
      | Inr (Some dbEvt) \<Rightarrow> ((Some dbEvt, None), decryptionQueue)
      | Inr None \<Rightarrow>
          (let dbEvt = MautrixToEvent env evt;
               dbEvt = (case removeReplyFallback env evt of
                          Some contentWithoutFallback \<Rightarrow> dbEvt\<lparr>Content := contentWithoutFallback\<rparr>
                        | None \<Rightarrow> dbEvt);
               step =
                 (if Type evt = EventEncrypted \<and> RedactedBy dbEvt = []
                  then (case decryptEvent env evt of
                          Inl decryptionErr \<Rightarrow>
                            Inr (dbEvt\<lparr>Decrypted := [], DecryptedType := [],
                                       DecryptionError := ErrorText env decryptionErr\<rparr>,
                                 Some decryptionErr)
                        | Inr (decrypted, raw, ty) \<Rightarrow>
                            Inr (dbEvt\<lparr>Decrypted := raw, DecryptedType := ty\<rparr>, None))
                  else if Type evt = EventRedaction
                  then (if Redacts evt \<noteq> [] \<and> ContentRedacts evt \<noteq> Redacts evt
                        then (case SetRedacts env evt of
                                Inl err \<Rightarrow> Inl (Wrap ''failed to set redacts field'' err)
                              | Inr evt' \<Rightarrow> Inr (dbEvt, None))
                        else Inr (dbEvt, None))
                  else Inr (dbEvt, None))
           in case step of
                Inl err \<Rightarrow> ((Some dbEvt, Some err), decryptionQueue)
              | Inr (dbEvt, decryptionErr) \<Rightarrow>
                  (case Upsert env dbEvt of
                     Inl err \<Rightarrow>
                       ((Some dbEvt, Some (Wrap ''failed to save event'' err)), decryptionQueue)
                   | Inr rowID \<Rightarrow>
                       (let dbEvt = dbEvt\<lparr>RowID := rowID\<rparr>
                        in ((Some dbEvt, None),
                            enqueue_retry env evt dbEvt decryptionErr decryptionQueue)))))"

section \<open>Cross-signing keys (crypto/cross_sign_key.go, goolm/pk/signing.go)\<close>


















section \<open>Example states\<close>

text \<open>An empty store on Postgres, its pairwise sessions being natural numbers.\<close>

definition empty_store :: "nat SQLCryptoStore" where
  "empty_store =
     \<lparr>DB = \<lparr>Dialect = Postgres, failing = None, crypto_olm_session = [],
             crypto_megolm_inbound_session = [], crypto_message_index = Map.empty\<rparr>,
      AccountID = ''acct'', PickleKey = [1, 2, 3], olmSessionCache = Map.empty\<rparr>"

text \<open>
  A backend for the examples: an inbound group session is a number, pickled as the one byte
  of that number after the key; an empty pickle is refused.
\<close>

definition example_backend :: "(nat, nat) igs_backend" where
  "example_backend =
     \<lparr>igs_Pickle = (\<lambda>i key. if key = [] then Inl (BackendError ''no key provided'')
                              else Inr (key @ [of_nat i])),
      igs_Unpickle = (\<lambda>pickled key. if pickled = [] then Inl (BackendError ''empty input'')
                                     else Inr (unat (last pickled))),
      igs_ID = (\<lambda>i. if i = 1 then ''S1'' else if i = 2 then ''S2''
                     else if i = 3 then ''S3'' else ''S4''),
      rs_Marshal = (\<lambda>r. Inr [of_nat r]),
      rs_Unmarshal = (\<lambda>b. Inr (unat (last b))),
      rs_Zero = 0\<rparr>"

text \<open>
  Four rows of the inbound session table: a session received long ago, a scheduled one of
  the same age, a session without receipt time, and a withheld record.
\<close>

definition row_old :: megolm_inbound_row where
  "row_old =
     \<lparr>r_account_id = ''acct'', r_session_id = ''S1'', r_sender_key = Some ''K'',
      r_signing_key = Some ''G'', r_room_id = ''!room'', r_session = Some [1, 2, 3, 1],
      r_forwarding_chains = Some [], r_withheld_code = None, r_withheld_reason = None,
      r_ratchet_safety = Some [0], r_received_at = Some 1000000, r_max_age = Some 1000,
      r_max_messages = Some 100, r_is_scheduled = False, r_key_backup_version = []\<rparr>"

definition row_scheduled :: megolm_inbound_row where
  "row_scheduled = row_old\<lparr>r_session_id := ''S2'', r_session := Some [1, 2, 3, 2],
                            r_is_scheduled := True\<rparr>"

definition row_undated :: megolm_inbound_row where
  "row_undated = row_old\<lparr>r_session_id := ''S3'', r_session := Some [1, 2, 3, 3],
                          r_received_at := None\<rparr>"

definition row_withheld :: megolm_inbound_row where
  "row_withheld =
     \<lparr>r_account_id = ''acct'', r_session_id = ''S4'', r_sender_key = Some ''K'',
      r_signing_key = None, r_room_id = ''!room'', r_session = None,
      r_forwarding_chains = None, r_withheld_code = Some ''m.unverified'',
      r_withheld_reason = Some ''not verified'', r_ratchet_safety = None,
      r_received_at = Some 1000000, r_max_age = None, r_max_messages = None,
      r_is_scheduled = False, r_key_backup_version = []\<rparr>"

definition group_store :: "nat SQLCryptoStore" where
  "group_store =
     empty_store\<lparr>DB := (DB empty_store)\<lparr>crypto_megolm_inbound_session :=
       [row_old, row_scheduled, row_undated, row_withheld]\<rparr>\<rparr>"

text \<open>A fresh key share for the session \<open>S4\<close>, which \<open>group_store\<close> holds as withheld.\<close>

definition example_session :: "(nat, nat) InboundGroupSession" where
  "example_session =
     \<lparr>InboundGroupSession.Internal = 4, SigningKey = ''G'',
      InboundGroupSession.SenderKey = ''K'', InboundGroupSession.RoomID = ''!room'',
      ForwardingChains = [], RatchetSafety = 0, ReceivedAt = 2000000, MaxAge = 1000,
      MaxMessages = 100, IsScheduled = False, KeyBackupVersion = []\<rparr>"





text \<open>
  A sync pipeline whose database is empty and accepts every event, where decryption finds no
  session, and an encrypted event of session \<open>sess\<close> whose ciphertext carries the index 5
  in its first byte.
\<close>

definition example_env :: hicli_env where
  "example_env =
     \<lparr>GetByID = (\<lambda>id. Inr None),
      Upsert = (\<lambda>e. Inr 1),
      MautrixToEvent = (\<lambda>evt. \<lparr>RowID = 0, EventID = ID evt, MegolmSessionID = ''sess'',
                                  RedactedBy = [], Content = VeryRaw evt, Decrypted = [],
                                  DecryptedType = [], DecryptionError = []\<rparr>),
      ParseRaw = (\<lambda>evt. None),
      DecryptMegolmEvent = (\<lambda>evt. Inl (Wrap ''failed to decrypt'' (Sentinel NoSessionFound))),
      removeReplyFallback = (\<lambda>evt. None),
      SetRedacts = (\<lambda>evt. Inr evt),
      ParseMegolmMessageIndex = (\<lambda>b. case b of [] \<Rightarrow> (0, Some (Sentinel (OtherError ''empty'')))
                                         | x # _ \<Rightarrow> (ucast x, None)),
      ErrorText = (\<lambda>err. ''failed to decrypt'')\<rparr>"

definition example_event :: Event where
  "example_event =
     \<lparr>ID = ''$event'', Type = EventEncrypted, Event.RoomID = ''!room'',
      Event.Sender = ''@alice'', Redacts = [], ContentRedacts = [], VeryRaw = [],
      MegolmCiphertext = [5, 6, 7]\<rparr>"

text \<open>The same pipeline where decryption fails on a duplicate message index.\<close>

definition terminal_env :: hicli_env where
  "terminal_env =
     example_env\<lparr>DecryptMegolmEvent := (\<lambda>evt. Inl (Sentinel DuplicateMessageIndex)),
                  ErrorText := (\<lambda>err. ''duplicate megolm message index'')\<rparr>"





section \<open>Properties of the session export message\<close>

lemma Uint32_PutUint32: "Uint32 (PutUint32 v @ xs) = v"
proof (rule bit_word_eqI)
  fix n :: nat
  assume n: "n < LENGTH(32)"
  consider "n < 8" | "8 \<le> n" "n < 16" | "16 \<le> n" "n < 24" | "24 \<le> n" "n < 32"
    using n by fastforce
  then show "bit (Uint32 (PutUint32 v @ xs)) n = bit v n"
    by cases (auto simp add: Uint32_def PutUint32_def bit_simps)
qed

lemma length_copy_at: "length (copy_at dst off src) = length dst"
  by (auto simp add: copy_at_def Let_def min_def)

lemma copy_at_keeps_first:
  assumes "0 < off" "off \<le> length dst"
  shows "copy_at dst off src ! 0 = dst ! 0"
  using assms by (simp add: copy_at_def Let_def nth_append)

lemma copy_at_zeros:
  assumes "length src \<le> k" "off = length pre"
  shows "copy_at (pre @ replicate k 0) off src = pre @ src @ replicate (k - length src) 0"
  using assms by (simp add: copy_at_def Let_def min_def)

lemma length_Encode: "length (Encode s) = 165"
  by (simp add: Encode_def Let_def length_copy_at)

lemma Encode_version: "Encode s ! 0 = sessionExportVersion"
  by (simp add: Encode_def Let_def copy_at_keeps_first length_copy_at)

lemma Encode_layout:
  assumes rd: "length (RatchetData s) = 128" and pk: "length (PublicKey s) = 32"
  shows "Encode s = sessionExportVersion # PutUint32 (Counter s) @ RatchetData s @ PublicKey s"
proof -
  let ?v = sessionExportVersion
  have o1: "(replicate 165 (0::byte))[0 := ?v] = [?v] @ replicate 164 0"
  proof -
    have "(replicate (Suc 164) (0::byte))[0 := ?v] = [?v] @ replicate 164 0"
      by (simp only: replicate_Suc list_update_code append_Cons append_Nil)
    moreover have "Suc 164 = (165::nat)" by simp
    ultimately show ?thesis by (simp only:)
  qed
  have o2: "copy_at ([?v] @ replicate 164 0) 1 (PutUint32 (Counter s))
              = ([?v] @ PutUint32 (Counter s)) @ replicate 160 0"
    using copy_at_zeros [of "PutUint32 (Counter s)" 164 1 "[?v]"]
    by (simp add: PutUint32_def)
  have o3: "copy_at (([?v] @ PutUint32 (Counter s)) @ replicate 160 0) 5 (RatchetData s)
              = ([?v] @ PutUint32 (Counter s) @ RatchetData s) @ replicate 32 0"
    using copy_at_zeros [of "RatchetData s" 160 5 "[?v] @ PutUint32 (Counter s)"] rd
    by (simp add: PutUint32_def)
  have o4: "copy_at (([?v] @ PutUint32 (Counter s) @ RatchetData s) @ replicate 32 0) 133 (PublicKey s)
              = ([?v] @ PutUint32 (Counter s) @ RatchetData s) @ PublicKey s"
    using copy_at_zeros [of "PublicKey s" 32 133 "[?v] @ PutUint32 (Counter s) @ RatchetData s"] rd pk
    by (simp add: PutUint32_def)
  show ?thesis
    unfolding Encode_def Let_def o1 o2 o3 o4 by simp
qed

lemma Decode_Encode:
  assumes "length (RatchetData s0) = 128"
    and "length (RatchetData s) = 128" and "length (PublicKey s) = 32"
  shows "Decode s0 (Encode s) = Inr s"
proof -
  have len: "length (PutUint32 (Counter s)) = 4"
    by (simp add: PutUint32_def)
  have c: "Uint32 (slice (Encode s) 1 5) = Counter s"
    using Uint32_PutUint32 [of "Counter s" "[]"] len
    by (simp add: Encode_layout assms slice_def)
  show ?thesis
    using assms len c
    by (simp add: Decode_def Encode_layout slice_def copy_at_def)
qed

text \<open>
  Claim C9. \<open>Encode\<close> always returns exactly 165 bytes whose first byte is the version
  \<open>0x01\<close>. \<open>Decode\<close> returns an error for every input whose length is not 165 or whose
  first byte is not \<open>0x01\<close> (whatever the receiver holds). For every export message whose
  public key is 32 bytes (the ratchet data being the 128-byte array of the struct, in the
  message and in the receiver), \<open>Decode\<close> applied to the output of \<open>Encode\<close> succeeds and
  reconstructs the original \<open>Counter\<close>, \<open>RatchetData\<close> and \<open>PublicKey\<close>.
\<close>

theorem MegolmSessionExport_encode_decode:
  "length (Encode s) = 165 \<and> Encode s ! 0 = 0x01
   \<and> (length input \<noteq> 165 \<or> input ! 0 \<noteq> 0x01 \<longrightarrow> (\<exists>e. Decode s0 input = Inl e))
   \<and> (length (RatchetData s) = 128 \<and> length (RatchetData s0) = 128 \<and> length (PublicKey s) = 32
        \<longrightarrow> (\<exists>s'. Decode s0 (Encode s) = Inr s'
               \<and> Counter s' = Counter s \<and> RatchetData s' = RatchetData s
               \<and> PublicKey s' = PublicKey s))"
proof -
  have a: "length (Encode s) = 165 \<and> Encode s ! 0 = 0x01"
    using length_Encode [of s] Encode_version [of s] by (simp add: sessionExportVersion_def)
  have b: "length input \<noteq> 165 \<or> input ! 0 \<noteq> 0x01 \<longrightarrow> (\<exists>e. Decode s0 input = Inl e)"
    by (simp add: Decode_def sessionExportVersion_def)
  have c: "length (RatchetData s) = 128 \<and> length (RatchetData s0) = 128 \<and> length (PublicKey s) = 32
        \<longrightarrow> (\<exists>s'. Decode s0 (Encode s) = Inr s'
               \<and> Counter s' = Counter s \<and> RatchetData s' = RatchetData s
               \<and> PublicKey s' = PublicKey s)"
    using Decode_Encode [of s0 s] by simp
  from a b c show ?thesis by blast
qed

theorem MegolmSessionExport_encode_decode_witness:
  "length (replicate 164 (2::byte)) \<noteq> 165
   \<and> (\<exists>e. Decode \<lparr>Counter = 0, RatchetData = replicate 128 0, PublicKey = []\<rparr>
             (replicate 164 2) = Inl e)
   \<and> length (replicate 128 (7::byte)) = 128 \<and> length (replicate 32 (9::byte)) = 32
   \<and> (\<exists>s'. Decode \<lparr>Counter = 0, RatchetData = replicate 128 0, PublicKey = []\<rparr>
             (Encode \<lparr>Counter = 0x01020304, RatchetData = replicate 128 7,
                      PublicKey = replicate 32 9\<rparr>) = Inr s'
         \<and> Counter s' = 0x01020304 \<and> RatchetData s' = replicate 128 7
         \<and> PublicKey s' = replicate 32 9)"
  using MegolmSessionExport_encode_decode
    [of "\<lparr>Counter = 0x01020304, RatchetData = replicate 128 7, PublicKey = replicate 32 9\<rparr>"
        "replicate 164 2"
        "\<lparr>Counter = 0, RatchetData = replicate 128 0, PublicKey = []\<rparr>"]
  by simp

section \<open>Properties of the message index\<close>

lemma ValidateMessageIndex_fresh:
  assumes "failing (DB store) = None"
    and "crypto_message_index (DB store) (senderKey, sessionID, index) = None"
  shows "ValidateMessageIndex store senderKey sessionID eventID index timestamp =
           ((True, None),
            store\<lparr>DB := (DB store)\<lparr>crypto_message_index :=
              (crypto_message_index (DB store))((senderKey, sessionID, index)
                 \<mapsto> (eventID, timestamp))\<rparr>\<rparr>)"
  using assms by (simp add: ValidateMessageIndex_def validateQuery_def)

lemma ValidateMessageIndex_bound:
  assumes "failing (DB store) = None"
    and "crypto_message_index (DB store) (senderKey, sessionID, index) = Some (ev, ts)"
  shows "ValidateMessageIndex store senderKey sessionID eventID index timestamp =
           ((eventID = ev \<and> timestamp = ts, None), store)"
  using assms by (auto simp add: ValidateMessageIndex_def validateQuery_def)

lemma ValidateMessageIndex_keeps:
  assumes "failing (DB store) = None"
    and "crypto_message_index (DB store) k = Some v"
    and "ValidateMessageIndex store senderKey sessionID eventID index timestamp = (res, store')"
  shows "failing (DB store') = None \<and> crypto_message_index (DB store') k = Some v"
  using assms
  by (cases "crypto_message_index (DB store) (senderKey, sessionID, index)")
     (auto simp add: ValidateMessageIndex_def validateQuery_def split: if_splits)

lemma ValidateMessageIndex_run_keeps:
  assumes "failing (DB store) = None"
    and "crypto_message_index (DB store) k = Some v"
    and "ValidateMessageIndex_run store calls = (ress, store')"
  shows "failing (DB store') = None \<and> crypto_message_index (DB store') k = Some v"
  using assms
proof (induction calls arbitrary: store ress)
  case Nil
  then show ?case by simp
next
  case (Cons c calls)
  obtain senderKey sessionID eventID index timestamp
    where c: "c = (senderKey, sessionID, eventID, index, timestamp)"
    by (cases c) auto
  obtain res store1
    where s1: "ValidateMessageIndex store senderKey sessionID eventID index timestamp
                 = (res, store1)"
    by (cases "ValidateMessageIndex store senderKey sessionID eventID index timestamp") auto
  obtain ress1 store2 where s2: "ValidateMessageIndex_run store1 calls = (ress1, store2)"
    by (cases "ValidateMessageIndex_run store1 calls") auto
  have k1: "failing (DB store1) = None \<and> crypto_message_index (DB store1) k = Some v"
    using ValidateMessageIndex_keeps [OF Cons.prems(1) Cons.prems(2) s1] .
  have "store' = store2"
    using Cons.prems(3) c s1 s2 by simp
  then show ?case
    using Cons.IH [of store1 ress1] k1 s2 by simp
qed

text \<open>
  Claim C1. While the database answers, the first call of \<open>ValidateMessageIndex\<close> for a
  triple \<open>(senderKey, sessionID, index)\<close> (no row of the message index has that key) returns
  true and stores the supplied \<open>(eventID, timestamp)\<close>. After any run of further calls, with
  any arguments, the stored binding is still that one, and a later call for the same triple
  returns true when both its event id and its timestamp equal the stored ones and false when
  either differs, again leaving the binding as it was. No call returns an error.
\<close>

theorem ValidateMessageIndex_binding:
  assumes "failing (DB store) = None"
    and "crypto_message_index (DB store) (senderKey, sessionID, index) = None"
  shows "(let (res1, store1) = ValidateMessageIndex store senderKey sessionID eventID index timestamp;
              (ress, store2) = ValidateMessageIndex_run store1 calls;
              (res3, store3) = ValidateMessageIndex store2 senderKey sessionID eventID' index timestamp'
          in res1 = (True, None)
             \<and> crypto_message_index (DB store1) (senderKey, sessionID, index)
                 = Some (eventID, timestamp)
             \<and> crypto_message_index (DB store2) (senderKey, sessionID, index)
                 = Some (eventID, timestamp)
             \<and> res3 = (eventID' = eventID \<and> timestamp' = timestamp, None)
             \<and> crypto_message_index (DB store3) (senderKey, sessionID, index)
                 = Some (eventID, timestamp))"
proof -
  let ?k = "(senderKey, sessionID, index)"
  obtain res1 store1
    where s1: "ValidateMessageIndex store senderKey sessionID eventID index timestamp
                 = (res1, store1)"
    by (cases "ValidateMessageIndex store senderKey sessionID eventID index timestamp") auto
  obtain ress store2 where s2: "ValidateMessageIndex_run store1 calls = (ress, store2)"
    by (cases "ValidateMessageIndex_run store1 calls") auto
  obtain res3 store3
    where s3: "ValidateMessageIndex store2 senderKey sessionID eventID' index timestamp'
                 = (res3, store3)"
    by (cases "ValidateMessageIndex store2 senderKey sessionID eventID' index timestamp'") auto
  have a: "res1 = (True, None)"
    and b: "crypto_message_index (DB store1) ?k = Some (eventID, timestamp)"
    and f1: "failing (DB store1) = None"
    using ValidateMessageIndex_fresh [OF assms(1) assms(2), of eventID timestamp] assms(1) s1
    by auto
  have c: "failing (DB store2) = None
           \<and> crypto_message_index (DB store2) ?k = Some (eventID, timestamp)"
    using ValidateMessageIndex_run_keeps [OF f1 b s2] .
  have d: "res3 = (eventID' = eventID \<and> timestamp' = timestamp, None)" and e: "store3 = store2"
    using ValidateMessageIndex_bound
        [of store2 senderKey sessionID index eventID timestamp eventID' timestamp'] c s3
    by auto
  show ?thesis
    using a b c d e by (simp add: s1 s2 s3)
qed

theorem ValidateMessageIndex_binding_witness:
  "failing (DB empty_store) = None
   \<and> crypto_message_index (DB empty_store) (''K'', ''7'', 3) = None
   \<and> (let (res1, store1) = ValidateMessageIndex empty_store ''K'' ''7'' ''$A'' 3 100;
           (ress, store2) = ValidateMessageIndex_run store1
                              [(''K'', ''7'', ''$B'', 3, 200), (''K'', ''7'', ''$C'', 4, 300)];
           (res3, store3) = ValidateMessageIndex store2 ''K'' ''7'' ''$B'' 3 200
       in res1 = (True, None)
          \<and> ress = [(False, None), (True, None)]
          \<and> crypto_message_index (DB store2) (''K'', ''7'', 3) = Some (''$A'', 100)
          \<and> res3 = (False, None)
          \<and> crypto_message_index (DB store3) (''K'', ''7'', 3) = Some (''$A'', 100))"
  using ValidateMessageIndex_binding
    [of empty_store "''K''" "''7''" 3 "''$A''" 100
        "[(''K'', ''7'', ''$B'', 3, 200), (''K'', ''7'', ''$C'', 4, 300)]" "''$B''" 200]
  by (simp add: empty_store_def ValidateMessageIndex_def validateQuery_def)

section \<open>Properties of the inbound group session table\<close>

lemma redact_where_twice:
  assumes "\<And>r. cond r \<Longrightarrow> r_session r \<noteq> None"
    and "redact_where db cond code reason = Inr (ids, db')"
  shows "redact_where db' cond code' reason' = Inr ([], db')"
proof -
  have f: "failing db = None" and
    db': "db' = db\<lparr>crypto_megolm_inbound_session :=
                    map (\<lambda>r. if cond r
                              then r\<lparr>r_withheld_code := Some code, r_withheld_reason := Some reason,
                                     r_session := None, r_forwarding_chains := None\<rparr>
                              else r)
                      (crypto_megolm_inbound_session db)\<rparr>"
    using assms(2) by (auto simp add: redact_where_def split: option.splits)
  have no: "\<And>r. r \<in> set (crypto_megolm_inbound_session db') \<Longrightarrow> \<not> cond r"
  proof
    fix r
    assume r: "r \<in> set (crypto_megolm_inbound_session db')" and c: "cond r"
    from c have "r_session r \<noteq> None" by (rule assms(1))
    moreover from r c have "r_session r = None"
      by (auto simp add: db' split: if_splits)
    ultimately show False by simp
  qed
  have "filter cond (crypto_megolm_inbound_session db') = []"
    using no by (simp add: filter_empty_conv)
  moreover have "map (\<lambda>r. if cond r
                              then r\<lparr>r_withheld_code := Some code', r_withheld_reason := Some reason',
                                     r_session := None, r_forwarding_chains := None\<rparr>
                              else r) (crypto_megolm_inbound_session db') = crypto_megolm_inbound_session db'"
    using no by (simp add: map_idI)
  moreover have "failing db' = None" using f db' by simp
  ultimately show ?thesis
    by (simp add: redact_where_def)
qed

lemma redact_where_exclusive:
  assumes "withheld_exclusive db" and "redact_where db cond code reason = Inr (ids, db')"
  shows "withheld_exclusive db'"
proof -
  have db': "crypto_megolm_inbound_session db' =
                    map (\<lambda>r. if cond r
                              then r\<lparr>r_withheld_code := Some code, r_withheld_reason := Some reason,
                                     r_session := None, r_forwarding_chains := None\<rparr>
                              else r)
                      (crypto_megolm_inbound_session db)"
    using assms(2) by (auto simp add: redact_where_def split: option.splits)
  show ?thesis
    using assms(1) unfolding withheld_exclusive_def db' list_all_iff
    by auto
qed

lemma upsert_exclusive:
  assumes "withheld_exclusive db" and "upsert_inbound_session db new = Inr db'"
    and "r_session new \<noteq> None" and "r_withheld_code new = None"
  shows "withheld_exclusive db'"
proof -
  let ?conflict = "\<lambda>r. r_session_id r = r_session_id new \<and> r_account_id r = r_account_id new"
  let ?rows = "crypto_megolm_inbound_session db"
  have inv: "\<forall>r\<in>set ?rows. (r_session r \<noteq> None) = (r_withheld_code r = None)"
    using assms(1) by (simp add: withheld_exclusive_def list_all_iff)
  show ?thesis
  proof (cases "list_ex ?conflict ?rows")
    case True
    then have "crypto_megolm_inbound_session db' = map (\<lambda>r. if ?conflict r
                               then r\<lparr>r_withheld_code := None, r_withheld_reason := None,
                                      r_sender_key := r_sender_key new,
                                      r_signing_key := r_signing_key new,
                                      r_room_id := r_room_id new, r_session := r_session new,
                                      r_forwarding_chains := r_forwarding_chains new,
                                      r_ratchet_safety := r_ratchet_safety new,
                                      r_received_at := r_received_at new,
                                      r_max_age := r_max_age new,
                                      r_max_messages := r_max_messages new,
                                      r_is_scheduled := r_is_scheduled new,
                                      r_key_backup_version := r_key_backup_version new\<rparr>
                               else r) ?rows"
      using assms(2) by (auto simp add: upsert_inbound_session_def Let_def split: option.splits)
    then show ?thesis
      using inv assms(3) unfolding withheld_exclusive_def list_all_iff by auto
  next
    case False
    then have "crypto_megolm_inbound_session db' = ?rows @ [new]"
      using assms(2) by (auto simp add: upsert_inbound_session_def Let_def split: option.splits)
    then show ?thesis
      using inv assms(3) assms(4) unfolding withheld_exclusive_def list_all_iff by auto
  qed
qed


lemma redact_where_rows:
  assumes "redact_where db cond code reason = Inr (ids, db')"
  shows "list_all2 (\<lambda>r r'. if cond r
                            then r_session r' = None \<and> r_withheld_code r' = Some code
                                 \<and> r_withheld_reason r' = Some reason
                            else r' = r)
           (crypto_megolm_inbound_session db) (crypto_megolm_inbound_session db')"
proof -
  have db': "crypto_megolm_inbound_session db' =
                    map (\<lambda>r. if cond r
                              then r\<lparr>r_withheld_code := Some code, r_withheld_reason := Some reason,
                                     r_session := None, r_forwarding_chains := None\<rparr>
                              else r)
                      (crypto_megolm_inbound_session db)"
    using assms by (auto simp add: redact_where_def split: option.splits)
  show ?thesis
    unfolding db' by (simp add: list_all2_map2 list_all2_same)
qed

lemma PutGroupSession_exclusive:
  assumes "withheld_exclusive (DB store)"
  shows "withheld_exclusive (DB (snd (PutGroupSession B store session)))"
  using assms
  by (auto simp add: PutGroupSession_def Let_def split: sum.splits elim!: upsert_exclusive [rotated])

lemma upsert_inbound_session_row:
  assumes "upsert_inbound_session db new = Inr db'"
    and "r_withheld_code new = None" and "r_withheld_reason new = None"
  shows "(\<exists>r\<in>set (crypto_megolm_inbound_session db').
            r_session_id r = r_session_id new \<and> r_account_id r = r_account_id new)
         \<and> (\<forall>r\<in>set (crypto_megolm_inbound_session db').
              r_session_id r = r_session_id new \<and> r_account_id r = r_account_id new
              \<longrightarrow> r_session r = r_session new \<and> r_withheld_code r = None
                  \<and> r_withheld_reason r = None)"
proof -
  let ?conflict = "\<lambda>r. r_session_id r = r_session_id new \<and> r_account_id r = r_account_id new"
  let ?rows = "crypto_megolm_inbound_session db"
  let ?upd = "\<lambda>r. if ?conflict r
                               then r\<lparr>r_withheld_code := None, r_withheld_reason := None,
                                      r_sender_key := r_sender_key new,
                                      r_signing_key := r_signing_key new,
                                      r_room_id := r_room_id new, r_session := r_session new,
                                      r_forwarding_chains := r_forwarding_chains new,
                                      r_ratchet_safety := r_ratchet_safety new,
                                      r_received_at := r_received_at new,
                                      r_max_age := r_max_age new,
                                      r_max_messages := r_max_messages new,
                                      r_is_scheduled := r_is_scheduled new,
                                      r_key_backup_version := r_key_backup_version new\<rparr>
                               else r"
  show ?thesis
  proof (cases "list_ex ?conflict ?rows")
    case True
    then have rows': "crypto_megolm_inbound_session db' = map ?upd ?rows"
      using assms(1) by (auto simp add: upsert_inbound_session_def Let_def split: option.splits)
    from True obtain r0 where r0: "r0 \<in> set ?rows" "?conflict r0"
      by (auto simp add: list_ex_iff)
    have "?upd r0 \<in> set (map ?upd ?rows)"
      using r0(1) unfolding set_map by (rule imageI)
    moreover have "?conflict (?upd r0)"
      using r0(2) by simp
    ultimately have ex: "\<exists>r\<in>set (crypto_megolm_inbound_session db'). ?conflict r"
      unfolding rows' by blast
    have all: "\<forall>r\<in>set (crypto_megolm_inbound_session db'). ?conflict r
              \<longrightarrow> r_session r = r_session new \<and> r_withheld_code r = None
                  \<and> r_withheld_reason r = None"
      unfolding rows' by (auto split: if_splits)
    from ex all show ?thesis by blast
  next
    case False
    then have rows': "crypto_megolm_inbound_session db' = ?rows @ [new]"
      using assms(1) by (auto simp add: upsert_inbound_session_def Let_def split: option.splits)
    from False have none: "\<forall>r\<in>set ?rows. \<not> ?conflict r"
      by (simp add: list_ex_iff)
    show ?thesis
      unfolding rows' using none assms(2) assms(3) by auto
  qed
qed

lemma PutGroupSession_clears:
  assumes "PutGroupSession B store session = (None, store')"
  shows "(\<exists>r\<in>set (crypto_megolm_inbound_session (DB store')).
            r_session_id r = igs_ID B (InboundGroupSession.Internal session)
            \<and> r_account_id r = AccountID store)
         \<and> (\<forall>r\<in>set (crypto_megolm_inbound_session (DB store')).
              r_session_id r = igs_ID B (InboundGroupSession.Internal session)
              \<and> r_account_id r = AccountID store
              \<longrightarrow> r_session r \<noteq> None \<and> r_withheld_code r = None
                  \<and> r_withheld_reason r = None)"
proof -
  from assms obtain sessionBytes ratchetSafety db'
    where p: "igs_Pickle B (InboundGroupSession.Internal session) (PickleKey store) = Inr sessionBytes"
      and m: "rs_Marshal B (RatchetSafety session) = Inr ratchetSafety"
      and u: "upsert_inbound_session (DB store)
                          \<lparr>r_account_id = AccountID store,
                           r_session_id = igs_ID B (InboundGroupSession.Internal session),
                           r_sender_key = Some (InboundGroupSession.SenderKey session),
                           r_signing_key = Some (SigningKey session),
                           r_room_id = InboundGroupSession.RoomID session,
                           r_session = Some sessionBytes,
                           r_forwarding_chains = Some (join_commas (ForwardingChains session)),
                           r_withheld_code = None,
                           r_withheld_reason = None,
                           r_ratchet_safety = Some ratchetSafety,
                           r_received_at = datePtr (ReceivedAt session),
                           r_max_age = NumPtr (MaxAge session),
                           r_max_messages = NumPtr (MaxMessages session),
                           r_is_scheduled = IsScheduled session,
                           r_key_backup_version = KeyBackupVersion session\<rparr> = Inr db'"
      and s: "store' = store\<lparr>DB := db'\<rparr>"
    by (auto simp add: PutGroupSession_def Let_def split: sum.splits)
  show ?thesis
    using upsert_inbound_session_row [OF u] by (simp add: s)
qed

lemma RedactGroupSession_exclusive:
  assumes "withheld_exclusive (DB store)"
  shows "withheld_exclusive (DB (snd (RedactGroupSession store roomID sessionID reason)))"
  using assms
  by (auto simp add: RedactGroupSession_def split: sum.splits elim!: redact_where_exclusive [rotated])

lemma RedactGroupSessions_exclusive:
  assumes "withheld_exclusive (DB store)"
  shows "withheld_exclusive (DB (snd (RedactGroupSessions store roomID senderKey reason)))"
  using assms
  by (auto simp add: RedactGroupSessions_def split: sum.splits elim!: redact_where_exclusive [rotated])

lemma RedactExpiredGroupSessions_exclusive:
  assumes "withheld_exclusive (DB store)"
  shows "withheld_exclusive (DB (snd (RedactExpiredGroupSessions store now)))"
  using assms
  by (auto simp add: RedactExpiredGroupSessions_def split: sum.splits dialect.splits
           elim!: redact_where_exclusive [rotated])

lemma RedactOutdatedGroupSessions_exclusive:
  assumes "withheld_exclusive (DB store)"
  shows "withheld_exclusive (DB (snd (RedactOutdatedGroupSessions store)))"
  using assms
  by (auto simp add: RedactOutdatedGroupSessions_def split: sum.splits elim!: redact_where_exclusive [rotated])

lemma PutWithheldGroupSession_exclusive:
  assumes "withheld_exclusive (DB store)"
  shows "withheld_exclusive (DB (snd (PutWithheldGroupSession store now content)))"
  using assms
  by (auto simp add: PutWithheldGroupSession_def Let_def withheld_exclusive_def split: option.splits)

lemma RedactGroupSession_only_nulling:
  "list_all2 (\<lambda>r r'. r' = r \<or> (r_session r' = None
                                  \<and> r_withheld_code r' = Some RoomKeyWithheldBeeperRedacted))
     (crypto_megolm_inbound_session (DB store))
     (crypto_megolm_inbound_session (DB (snd (RedactGroupSession store roomID sessionID reason))))"
proof (cases "failing (DB store)")
  case None
  let ?cond = "\<lambda>r. r_session_id r = sessionID \<and> r_account_id r = AccountID store
                     \<and> r_session r \<noteq> None"
  obtain ids db1
    where q1: "redact_where (DB store) ?cond RoomKeyWithheldBeeperRedacted
                 (''Session redacted: '' @ reason) = Inr (ids, db1)"
    using None by (simp add: redact_where_def)
  have "list_all2 (\<lambda>r r'. if ?cond r
                            then r_session r' = None \<and> r_withheld_code r' = Some RoomKeyWithheldBeeperRedacted
                                 \<and> r_withheld_reason r' = Some (''Session redacted: '' @ reason)
                            else r' = r)
           (crypto_megolm_inbound_session (DB store)) (crypto_megolm_inbound_session db1)"
    using redact_where_rows [OF q1] .
  then have "list_all2 (\<lambda>r r'. r' = r \<or> (r_session r' = None
                                  \<and> r_withheld_code r' = Some RoomKeyWithheldBeeperRedacted))
           (crypto_megolm_inbound_session (DB store)) (crypto_megolm_inbound_session db1)"
    by (rule list_all2_mono) (auto split: if_splits)
  then show ?thesis
    using q1 by (simp add: RedactGroupSession_def)
next
  case (Some e)
  then show ?thesis
    by (simp add: RedactGroupSession_def redact_where_def list_all2_same)
qed

text \<open>
  Claim C7. \<open>RedactGroupSession\<close> is idempotent. While the database answers, a first call
  for a session id returns no error and leaves every record it matched (that id, the store's
  account, a non-null session) withheld, with the redaction code, the reason of that call and
  a null session state, and every other record as it was. A second call for the same id
  (with any room and reason) returns no error and leaves the store exactly as the first call
  left it.
\<close>

theorem RedactGroupSession_idempotent:
  assumes "failing (DB store) = None"
  shows "(let (err1, store1) = RedactGroupSession store roomID sessionID reason;
              (err2, store2) = RedactGroupSession store1 roomID' sessionID reason'
          in err1 = None \<and> err2 = None \<and> store2 = store1
             \<and> list_all2
                 (\<lambda>r r1. if r_session_id r = sessionID \<and> r_account_id r = AccountID store
                              \<and> r_session r \<noteq> None
                           then r_session r1 = None
                                \<and> r_withheld_code r1 = Some RoomKeyWithheldBeeperRedacted
                                \<and> r_withheld_reason r1 = Some (''Session redacted: '' @ reason)
                           else r1 = r)
                 (crypto_megolm_inbound_session (DB store))
                 (crypto_megolm_inbound_session (DB store1)))"
proof -
  let ?cond = "\<lambda>r. r_session_id r = sessionID \<and> r_account_id r = AccountID store
                     \<and> r_session r \<noteq> None"
  obtain ids db1
    where q1: "redact_where (DB store) ?cond RoomKeyWithheldBeeperRedacted
                 (''Session redacted: '' @ reason) = Inr (ids, db1)"
    using assms by (simp add: redact_where_def)
  have s1: "RedactGroupSession store roomID sessionID reason = (None, store\<lparr>DB := db1\<rparr>)"
    using q1 by (simp add: RedactGroupSession_def)
  have q2: "redact_where db1 ?cond RoomKeyWithheldBeeperRedacted
              (''Session redacted: '' @ reason') = Inr ([], db1)"
    using redact_where_twice [OF _ q1] by simp
  have s2: "RedactGroupSession (store\<lparr>DB := db1\<rparr>) roomID' sessionID reason'
              = (None, store\<lparr>DB := db1\<rparr>)"
    using q2 by (simp add: RedactGroupSession_def)
  show ?thesis
    using redact_where_rows [OF q1] by (simp add: s1 s2)
qed

theorem RedactGroupSession_idempotent_witness:
  "failing (DB group_store) = None
   \<and> (let (err1, store1) = RedactGroupSession group_store ''!room'' ''S1'' ''spam'';
           (err2, store2) = RedactGroupSession store1 ''!room'' ''S1'' ''spam''
       in err1 = None \<and> err2 = None \<and> store2 = store1
          \<and> map r_session (crypto_megolm_inbound_session (DB store2))
              = [None, Some [1, 2, 3, 2], Some [1, 2, 3, 3], None]
          \<and> map r_withheld_reason (crypto_megolm_inbound_session (DB store2))
              = [Some ''Session redacted: spam'', None, None, Some ''not verified''])"
  using RedactGroupSession_idempotent [of group_store "''!room''" "''S1''" "''spam''" "''!room''" "''spam''"]
  by (simp add: group_store_def empty_store_def RedactGroupSession_def redact_where_def
        row_old_def row_scheduled_def row_undated_def row_withheld_def)

text \<open>
  Claim C3. Exclusivity of session state and withheld code: in every record of the inbound
  session table the session blob is non-null if and only if the withheld code is null. It
  holds of the empty table and is preserved by every operation of the store that writes the
  table: \<open>PutGroupSession\<close>, \<open>RedactGroupSession\<close>, \<open>RedactGroupSessions\<close>,
  \<open>RedactExpiredGroupSessions\<close>, \<open>RedactOutdatedGroupSessions\<close> and
  \<open>PutWithheldGroupSession\<close>. A successful \<open>PutGroupSession\<close> leaves a record for its
  session id, with a non-null session and both the withheld code and the withheld reason
  cleared. \<open>RedactGroupSession\<close> leaves each record either untouched or with the redaction
  code set and the session state null.
\<close>

theorem withheld_exclusive_invariant:
  assumes "withheld_exclusive (DB store)"
  shows "(crypto_megolm_inbound_session db0 = [] \<longrightarrow> withheld_exclusive db0)
    \<and> withheld_exclusive (DB (snd (PutGroupSession B store session)))
    \<and> withheld_exclusive (DB (snd (RedactGroupSession store roomID sessionID reason)))
    \<and> withheld_exclusive (DB (snd (RedactGroupSessions store roomID senderKey reason)))
    \<and> withheld_exclusive (DB (snd (RedactExpiredGroupSessions store now)))
    \<and> withheld_exclusive (DB (snd (RedactOutdatedGroupSessions store)))
    \<and> withheld_exclusive (DB (snd (PutWithheldGroupSession store now content)))
    \<and> (fst (PutGroupSession B store session) = None \<longrightarrow>
          (\<exists>r\<in>set (crypto_megolm_inbound_session (DB (snd (PutGroupSession B store session)))).
             r_session_id r = igs_ID B (InboundGroupSession.Internal session)
             \<and> r_account_id r = AccountID store)
          \<and> (\<forall>r\<in>set (crypto_megolm_inbound_session (DB (snd (PutGroupSession B store session)))).
               r_session_id r = igs_ID B (InboundGroupSession.Internal session)
               \<and> r_account_id r = AccountID store
               \<longrightarrow> r_session r \<noteq> None \<and> r_withheld_code r = None
                   \<and> r_withheld_reason r = None))
    \<and> list_all2 (\<lambda>r r'. r' = r \<or> (r_session r' = None
                                  \<and> r_withheld_code r' = Some RoomKeyWithheldBeeperRedacted))
         (crypto_megolm_inbound_session (DB store))
         (crypto_megolm_inbound_session
            (DB (snd (RedactGroupSession store roomID sessionID reason))))"
proof -
  have base: "crypto_megolm_inbound_session db0 = [] \<longrightarrow> withheld_exclusive db0"
    by (simp add: withheld_exclusive_def)
  have put: "fst (PutGroupSession B store session) = None \<longrightarrow>
          (\<exists>r\<in>set (crypto_megolm_inbound_session (DB (snd (PutGroupSession B store session)))).
             r_session_id r = igs_ID B (InboundGroupSession.Internal session)
             \<and> r_account_id r = AccountID store)
          \<and> (\<forall>r\<in>set (crypto_megolm_inbound_session (DB (snd (PutGroupSession B store session)))).
               r_session_id r = igs_ID B (InboundGroupSession.Internal session)
               \<and> r_account_id r = AccountID store
               \<longrightarrow> r_session r \<noteq> None \<and> r_withheld_code r = None
                   \<and> r_withheld_reason r = None)"
  proof
    assume "fst (PutGroupSession B store session) = None"
    then have "PutGroupSession B store session = (None, snd (PutGroupSession B store session))"
      by (metis prod.collapse)
    then show "(\<exists>r\<in>set (crypto_megolm_inbound_session (DB (snd (PutGroupSession B store session)))).
             r_session_id r = igs_ID B (InboundGroupSession.Internal session)
             \<and> r_account_id r = AccountID store)
          \<and> (\<forall>r\<in>set (crypto_megolm_inbound_session (DB (snd (PutGroupSession B store session)))).
               r_session_id r = igs_ID B (InboundGroupSession.Internal session)
               \<and> r_account_id r = AccountID store
               \<longrightarrow> r_session r \<noteq> None \<and> r_withheld_code r = None
                   \<and> r_withheld_reason r = None)"
      by (rule PutGroupSession_clears)
  qed
  show ?thesis
    using base put
      PutGroupSession_exclusive [OF assms, of B session]
      RedactGroupSession_exclusive [OF assms, of roomID sessionID reason]
      RedactGroupSessions_exclusive [OF assms, of roomID senderKey reason]
      RedactExpiredGroupSessions_exclusive [OF assms, of now]
      RedactOutdatedGroupSessions_exclusive [OF assms]
      PutWithheldGroupSession_exclusive [OF assms, of now content]
      RedactGroupSession_only_nulling [of store roomID sessionID reason]
    by blast
qed

theorem withheld_exclusive_invariant_witness:
  "withheld_exclusive (DB group_store)
   \<and> crypto_megolm_inbound_session (DB empty_store) = []
   \<and> withheld_exclusive (DB empty_store)
   \<and> fst (PutGroupSession example_backend group_store example_session) = None
   \<and> withheld_exclusive (DB (snd (PutGroupSession example_backend group_store example_session)))
   \<and> map (\<lambda>r. (r_session_id r, r_session r, r_withheld_code r, r_withheld_reason r))
        (crypto_megolm_inbound_session
           (DB (snd (PutGroupSession example_backend group_store example_session))))
      = [(''S1'', Some [1, 2, 3, 1], None, None), (''S2'', Some [1, 2, 3, 2], None, None),
         (''S3'', Some [1, 2, 3, 3], None, None), (''S4'', Some [1, 2, 3, 4], None, None)]
   \<and> withheld_exclusive (DB (snd (RedactGroupSession group_store ''!room'' ''S1'' ''spam'')))
   \<and> map (\<lambda>r. (r_session_id r, r_session r, r_withheld_code r))
        (crypto_megolm_inbound_session
           (DB (snd (RedactGroupSession group_store ''!room'' ''S1'' ''spam''))))
      = [(''S1'', None, Some ''com.beeper.redacted''), (''S2'', Some [1, 2, 3, 2], None),
         (''S3'', Some [1, 2, 3, 3], None), (''S4'', None, Some ''m.unverified'')]"
proof -
  have h: "withheld_exclusive (DB group_store)"
    by (simp add: withheld_exclusive_def group_store_def empty_store_def row_old_def
          row_scheduled_def row_undated_def row_withheld_def)
  show ?thesis
    using h withheld_exclusive_invariant
      [OF h, of "DB empty_store" example_backend example_session "''!room''" "''S1''" "''spam''"]
    by (simp add: group_store_def empty_store_def row_old_def row_scheduled_def row_undated_def
          row_withheld_def example_backend_def example_session_def PutGroupSession_def
          upsert_inbound_session_def RedactGroupSession_def redact_where_def Let_def
          datePtr_def NumPtr_def IsZero_def zero_time_def RoomKeyWithheldBeeperRedacted_def)
qed

text \<open>
  Claim C10. \<open>GetGroupSession\<close> tells the three states of a session apart, while the
  database answers and the table satisfies the exclusivity of C3. When no record exists for
  the room and session id (in the store's account) it returns a nil session and a nil error.
  When the record found is withheld it returns a nil session and, as its error, the withheld
  content carrying the stored code and reason. A non-nil session is returned only from a
  record with a non-null session state (and a null withheld code), and then with a nil error.
\<close>

theorem GetGroupSession_three_states:
  assumes "failing (DB store) = None" and "withheld_exclusive (DB store)"
  shows "((\<forall>r\<in>set (crypto_megolm_inbound_session (DB store)).
             \<not> (r_room_id r = roomID \<and> r_session_id r = sessionID
                \<and> r_account_id r = AccountID store))
          \<longrightarrow> GetGroupSession B store roomID sessionID = (None, None))
    \<and> (\<forall>row code.
          find (\<lambda>r. r_room_id r = roomID \<and> r_session_id r = sessionID
                     \<and> r_account_id r = AccountID store)
            (crypto_megolm_inbound_session (DB store)) = Some row
          \<and> r_withheld_code row = Some code
          \<longrightarrow> (\<exists>content. GetGroupSession B store roomID sessionID
                            = (None, Some (WithheldError content))
                 \<and> Code content = code
                 \<and> Reason content = NullString_String (r_withheld_reason row)
                 \<and> RoomKeyWithheldEventContent.RoomID content = roomID
                 \<and> RoomKeyWithheldEventContent.SessionID content = sessionID))
    \<and> (\<forall>sess. fst (GetGroupSession B store roomID sessionID) = Some sess
          \<longrightarrow> snd (GetGroupSession B store roomID sessionID) = None
              \<and> (\<exists>row\<in>set (crypto_megolm_inbound_session (DB store)).
                    r_room_id row = roomID \<and> r_session_id row = sessionID
                    \<and> r_account_id row = AccountID store
                    \<and> r_session row \<noteq> None \<and> r_withheld_code row = None))"
proof -
  let ?P = "\<lambda>r. r_room_id r = roomID \<and> r_session_id r = sessionID
                  \<and> r_account_id r = AccountID store"
  let ?rows = "crypto_megolm_inbound_session (DB store)"
  have inv: "\<forall>r\<in>set ?rows. (r_session r \<noteq> None) = (r_withheld_code r = None)"
    using assms(2) by (simp add: withheld_exclusive_def list_all_iff)
  have a: "(\<forall>r\<in>set ?rows. \<not> ?P r) \<longrightarrow> GetGroupSession B store roomID sessionID = (None, None)"
  proof
    assume "\<forall>r\<in>set ?rows. \<not> ?P r"
    then have "find ?P ?rows = None"
      by (simp add: find_None_iff)
    then show "GetGroupSession B store roomID sessionID = (None, None)"
      using assms(1) by (simp add: GetGroupSession_def)
  qed
  have b: "\<forall>row code. find ?P ?rows = Some row \<and> r_withheld_code row = Some code
          \<longrightarrow> (\<exists>content. GetGroupSession B store roomID sessionID
                            = (None, Some (WithheldError content))
                 \<and> Code content = code
                 \<and> Reason content = NullString_String (r_withheld_reason row)
                 \<and> RoomKeyWithheldEventContent.RoomID content = roomID
                 \<and> RoomKeyWithheldEventContent.SessionID content = sessionID)"
    using assms(1) by (simp add: GetGroupSession_def)
  have c: "\<forall>sess. fst (GetGroupSession B store roomID sessionID) = Some sess
          \<longrightarrow> snd (GetGroupSession B store roomID sessionID) = None
              \<and> (\<exists>row\<in>set ?rows. r_room_id row = roomID \<and> r_session_id row = sessionID
                    \<and> r_account_id row = AccountID store
                    \<and> r_session row \<noteq> None \<and> r_withheld_code row = None)"
  proof (intro allI impI)
    fix sess
    assume g: "fst (GetGroupSession B store roomID sessionID) = Some sess"
    then obtain row where f: "find ?P ?rows = Some row"
      using assms(1) by (cases "find ?P ?rows") (auto simp add: GetGroupSession_def)
    have w: "r_withheld_code row = None"
      using g f assms(1) by (cases "r_withheld_code row") (auto simp add: GetGroupSession_def)
    have mem: "row \<in> set ?rows" and p: "?P row"
      using f by (auto simp add: find_Some_iff)
    have s: "r_session row \<noteq> None"
      using inv mem w by blast
    have e: "snd (GetGroupSession B store roomID sessionID) = None"
      using g f w assms(1)
      by (auto simp add: GetGroupSession_def split: sum.splits)
    show "snd (GetGroupSession B store roomID sessionID) = None
              \<and> (\<exists>row\<in>set ?rows. r_room_id row = roomID \<and> r_session_id row = sessionID
                    \<and> r_account_id row = AccountID store
                    \<and> r_session row \<noteq> None \<and> r_withheld_code row = None)"
      using e mem p s w by blast
  qed
  show ?thesis
    by (intro conjI) (rule a, rule b, rule c)
qed


theorem GetGroupSession_three_states_witness:
  "failing (DB group_store) = None \<and> withheld_exclusive (DB group_store)
   \<and> GetGroupSession example_backend group_store ''!room'' ''S5'' = (None, None)
   \<and> find (\<lambda>r. r_room_id r = ''!room'' \<and> r_session_id r = ''S4''
                  \<and> r_account_id r = AccountID group_store)
         (crypto_megolm_inbound_session (DB group_store)) = Some row_withheld
   \<and> r_withheld_code row_withheld = Some ''m.unverified''
   \<and> (\<exists>content. GetGroupSession example_backend group_store ''!room'' ''S4''
                    = (None, Some (WithheldError content))
          \<and> Code content = ''m.unverified'' \<and> Reason content = ''not verified'')
   \<and> (\<exists>sess. fst (GetGroupSession example_backend group_store ''!room'' ''S1'') = Some sess)
   \<and> snd (GetGroupSession example_backend group_store ''!room'' ''S1'') = None
   \<and> r_session row_old \<noteq> None"
proof -
  have f: "failing (DB group_store) = None"
    by (simp add: group_store_def empty_store_def)
  have h: "withheld_exclusive (DB group_store)"
    by (simp add: withheld_exclusive_def group_store_def empty_store_def row_old_def
          row_scheduled_def row_undated_def row_withheld_def)
  show ?thesis
    using f h
      GetGroupSession_three_states [OF f h, of "''!room''" "''S5''" example_backend]
      GetGroupSession_three_states [OF f h, of "''!room''" "''S4''" example_backend]
      GetGroupSession_three_states [OF f h, of "''!room''" "''S1''" example_backend]
    by (simp add: group_store_def empty_store_def row_old_def row_scheduled_def row_undated_def
          row_withheld_def example_backend_def GetGroupSession_def
          postScanInboundGroupSession_def scan_bytes_def NullString_String_def)
qed




section \<open>Properties of the pairwise session queries\<close>









section \<open>Properties of the retry queue\<close>

lemma errors_Is_cause: "errors_Is err target = (cause err = target)"
  by (induction err) auto

lemma retryable_cause:
  "isDecryptionErrorRetryable err
     = (cause err = NoSessionFound \<or> cause err = UnknownMessageIndex
        \<or> cause err = ErrGroupSessionWithheld)"
  by (simp add: isDecryptionErrorRetryable_def errors_Is_cause)

lemma enqueue_retry_None [simp]: "enqueue_retry env evt dbEvt None q = q"
  by (simp add: enqueue_retry_def)

lemma enqueue_retry_terminal:
  "\<not> isDecryptionErrorRetryable err \<Longrightarrow> enqueue_retry env evt dbEvt (Some err) q = q"
  by (simp add: enqueue_retry_def)

lemma enqueue_retry_retryable:
  assumes "isDecryptionErrorRetryable err"
  shows "enqueue_retry env evt dbEvt (Some err) q (MegolmSessionID dbEvt) \<noteq> None
         \<and> (\<forall>k. k \<noteq> MegolmSessionID dbEvt \<longrightarrow> enqueue_retry env evt dbEvt (Some err) q k = q k)"
  using assms by (simp add: enqueue_retry_def Let_def split: prod.splits)

lemma processEvent_queue_cases:
  "snd (processEvent env evt q checkDB) = q
   \<or> (\<exists>dbEvt err. decryptEvent env evt = Inl err
         \<and> snd (processEvent env evt q checkDB) = enqueue_retry env evt dbEvt (Some err) q)"
proof (cases "if checkDB then GetByID env (ID evt) else Inr None")
  case (Inl err)
  then show ?thesis by (simp add: processEvent_def)
next
  case (Inr found)
  show ?thesis
  proof (cases found)
    case (Some dbEvt)
    then show ?thesis using Inr by (simp add: processEvent_def)
  next
    case None
    show ?thesis
    proof (cases "Type evt = EventEncrypted
                  \<and> RedactedBy (case removeReplyFallback env evt of
                          Some c \<Rightarrow> (MautrixToEvent env evt)\<lparr>Content := c\<rparr>
                        | None \<Rightarrow> MautrixToEvent env evt) = []")
      case True
      show ?thesis
      proof (cases "decryptEvent env evt")
        case (Inl e)
        then show ?thesis
          using Inr None True
          by (auto simp add: processEvent_def Let_def split: sum.splits)
      next
        case (Inr ok)
        then show ?thesis
          using \<open>(if checkDB then GetByID env (ID evt) else Inr None) = Inr found\<close> None True
          by (auto simp add: processEvent_def Let_def split: sum.splits prod.splits)
      qed
    next
      case False
      then show ?thesis
        using Inr None
        by (auto simp add: processEvent_def Let_def split: sum.splits)
    qed
  qed
qed


lemma processEvent_decryption_failure:
  assumes db: "checkDB \<longrightarrow> GetByID env (ID evt) = Inr None"
    and ty: "Type evt = EventEncrypted"
    and red: "RedactedBy (MautrixToEvent env evt) = []"
    and dec: "decryptEvent env evt = Inl e"
    and ok: "snd (fst (processEvent env evt q checkDB)) = None"
  shows "\<exists>d. processEvent env evt q checkDB
                = ((Some d, None), enqueue_retry env evt d (Some e) q)
              \<and> DecryptionError d = ErrorText env e"
proof -
  let ?d0 = "case removeReplyFallback env evt of
               Some c \<Rightarrow> (MautrixToEvent env evt)\<lparr>Content := c\<rparr>
             | None \<Rightarrow> MautrixToEvent env evt"
  let ?d1 = "?d0\<lparr>Decrypted := [], DecryptedType := [], DecryptionError := ErrorText env e\<rparr>"
  have g: "(if checkDB then GetByID env (ID evt) else Inr None) = Inr None"
    using db by simp
  have r0: "RedactedBy ?d0 = []"
    using red by (simp split: option.splits)
  show ?thesis
  proof (cases "Upsert env ?d1")
    case (Inl err)
    then have "snd (fst (processEvent env evt q checkDB)) \<noteq> None"
      using g ty r0 dec by (simp add: processEvent_def Let_def)
    then show ?thesis using ok by simp
  next
    case (Inr rowID)
    then have "processEvent env evt q checkDB
                = ((Some (?d1\<lparr>RowID := rowID\<rparr>), None),
                   enqueue_retry env evt (?d1\<lparr>RowID := rowID\<rparr>) (Some e) q)"
      using g ty r0 dec by (simp add: processEvent_def Let_def)
    then show ?thesis by simp
  qed
qed

text \<open>
  Claim C2 says that the request of a session records the smallest message index among its
  failed ciphertexts, and the index of the ciphertext at the first failure. The code at that
  input: the queue is empty, the event of session \<open>sess\<close> fails to decrypt with the
  retryable \<open>NoSessionFound\<close>, its ciphertext parses to the index 5, and the request that
  \<open>processEvent\<close> puts in the queue has the minimum index 0, the minimum being taken with
  the zero value of the request just created.
\<close>

theorem processEvent_first_failure_min_index:
  "fst (ParseMegolmMessageIndex example_env (MegolmCiphertext example_event)) = 5
   \<and> decryptEvent example_env example_event = Inl (Wrap ''failed to decrypt'' (Sentinel NoSessionFound))
   \<and> isDecryptionErrorRetryable (Wrap ''failed to decrypt'' (Sentinel NoSessionFound))
   \<and> snd (processEvent example_env example_event Map.empty False) ''sess''
       = Some \<lparr>SessionRequest.RoomID = ''!room'', SessionID = ''sess'',
               SessionRequest.Sender = ''@alice'', MinIndex = 0\<rparr>"
  by (simp add: example_env_def example_event_def processEvent_def decryptEvent_def
        enqueue_retry_def isDecryptionErrorRetryable_def EventEncrypted_def Let_def)

text \<open>
  Claim C6. A decryption error is retryable if and only if the error at the end of its chain
  is one of \<open>NoSessionFound\<close>, \<open>UnknownMessageIndex\<close> and \<open>ErrGroupSessionWithheld\<close>.
  Whatever path \<open>processEvent\<close> takes, it leaves the queue as it was unless the decryption
  of the event failed with a retryable error. When the decryption of an encrypted, unredacted
  event that is not yet in the database fails and \<open>processEvent\<close> returns no error, the
  event returned (and saved) carries the text of the decryption error; and the queue then
  holds a request for the event's session, all other sessions being as before, when the
  error is retryable, and is unchanged when it is not.
\<close>

theorem decryption_error_classification:
  "(isDecryptionErrorRetryable err
      = (cause err \<in> {NoSessionFound, UnknownMessageIndex, ErrGroupSessionWithheld}))
   \<and> ((\<forall>e. decryptEvent env evt = Inl e \<longrightarrow> \<not> isDecryptionErrorRetryable e)
        \<longrightarrow> snd (processEvent env evt q checkDB) = q)
   \<and> ((checkDB \<longrightarrow> GetByID env (ID evt) = Inr None) \<and> Type evt = EventEncrypted
        \<and> RedactedBy (MautrixToEvent env evt) = [] \<and> decryptEvent env evt = Inl e
        \<and> snd (fst (processEvent env evt q checkDB)) = None
       \<longrightarrow> (\<exists>d. fst (fst (processEvent env evt q checkDB)) = Some d
                \<and> DecryptionError d = ErrorText env e
                \<and> (if isDecryptionErrorRetryable e
                    then snd (processEvent env evt q checkDB) (MegolmSessionID d) \<noteq> None
                         \<and> (\<forall>k. k \<noteq> MegolmSessionID d
                                \<longrightarrow> snd (processEvent env evt q checkDB) k = q k)
                    else snd (processEvent env evt q checkDB) = q)))"
proof -
  have a: "isDecryptionErrorRetryable err
      = (cause err \<in> {NoSessionFound, UnknownMessageIndex, ErrGroupSessionWithheld})"
    by (simp add: retryable_cause)
  have b: "(\<forall>e. decryptEvent env evt = Inl e \<longrightarrow> \<not> isDecryptionErrorRetryable e)
        \<longrightarrow> snd (processEvent env evt q checkDB) = q"
    using processEvent_queue_cases [of env evt q checkDB]
    by (auto simp add: enqueue_retry_terminal)
  have c: "(checkDB \<longrightarrow> GetByID env (ID evt) = Inr None) \<and> Type evt = EventEncrypted
        \<and> RedactedBy (MautrixToEvent env evt) = [] \<and> decryptEvent env evt = Inl e
        \<and> snd (fst (processEvent env evt q checkDB)) = None
       \<longrightarrow> (\<exists>d. fst (fst (processEvent env evt q checkDB)) = Some d
                \<and> DecryptionError d = ErrorText env e
                \<and> (if isDecryptionErrorRetryable e
                    then snd (processEvent env evt q checkDB) (MegolmSessionID d) \<noteq> None
                         \<and> (\<forall>k. k \<noteq> MegolmSessionID d
                                \<longrightarrow> snd (processEvent env evt q checkDB) k = q k)
                    else snd (processEvent env evt q checkDB) = q))"
  proof
    assume h: "(checkDB \<longrightarrow> GetByID env (ID evt) = Inr None) \<and> Type evt = EventEncrypted
        \<and> RedactedBy (MautrixToEvent env evt) = [] \<and> decryptEvent env evt = Inl e
        \<and> snd (fst (processEvent env evt q checkDB)) = None"
    then obtain d
      where p: "processEvent env evt q checkDB
                  = ((Some d, None), enqueue_retry env evt d (Some e) q)"
        and de: "DecryptionError d = ErrorText env e"
      using processEvent_decryption_failure [of checkDB env evt e q] by blast
    have "if isDecryptionErrorRetryable e
          then enqueue_retry env evt d (Some e) q (MegolmSessionID d) \<noteq> None
               \<and> (\<forall>k. k \<noteq> MegolmSessionID d \<longrightarrow> enqueue_retry env evt d (Some e) q k = q k)
          else enqueue_retry env evt d (Some e) q = q"
      using enqueue_retry_retryable [of e env evt d q] enqueue_retry_terminal [of e env evt d q]
      by simp
    then show "\<exists>d. fst (fst (processEvent env evt q checkDB)) = Some d
                \<and> DecryptionError d = ErrorText env e
                \<and> (if isDecryptionErrorRetryable e
                    then snd (processEvent env evt q checkDB) (MegolmSessionID d) \<noteq> None
                         \<and> (\<forall>k. k \<noteq> MegolmSessionID d
                                \<longrightarrow> snd (processEvent env evt q checkDB) k = q k)
                    else snd (processEvent env evt q checkDB) = q)"
      using de by (simp add: p)
  qed
  show ?thesis
    by (intro conjI) (rule a, rule b, rule c)
qed

theorem decryption_error_classification_witness:
  "cause (Wrap ''failed to decrypt'' (Sentinel NoSessionFound))
     \<in> {NoSessionFound, UnknownMessageIndex, ErrGroupSessionWithheld}
   \<and> isDecryptionErrorRetryable (Wrap ''failed to decrypt'' (Sentinel NoSessionFound))
   \<and> decryptEvent terminal_env example_event = Inl (Sentinel DuplicateMessageIndex)
   \<and> \<not> isDecryptionErrorRetryable (Sentinel DuplicateMessageIndex)
   \<and> snd (processEvent terminal_env example_event Map.empty True) = Map.empty
   \<and> GetByID example_env (ID example_event) = Inr None
   \<and> Type example_event = EventEncrypted
   \<and> RedactedBy (MautrixToEvent example_env example_event) = []
   \<and> decryptEvent example_env example_event
       = Inl (Wrap ''failed to decrypt'' (Sentinel NoSessionFound))
   \<and> snd (fst (processEvent example_env example_event Map.empty True)) = None
   \<and> (\<exists>d. fst (fst (processEvent example_env example_event Map.empty True)) = Some d
          \<and> DecryptionError d = ''failed to decrypt'' \<and> MegolmSessionID d = ''sess'')
   \<and> snd (processEvent example_env example_event Map.empty True) ''sess'' \<noteq> None
   \<and> snd (processEvent example_env example_event Map.empty True) ''other'' = None"
  using
    decryption_error_classification
      [of "Wrap ''failed to decrypt'' (Sentinel NoSessionFound)" terminal_env example_event
          Map.empty True "Sentinel DuplicateMessageIndex"]
    decryption_error_classification
      [of "Wrap ''failed to decrypt'' (Sentinel NoSessionFound)" example_env example_event
          Map.empty True "Wrap ''failed to decrypt'' (Sentinel NoSessionFound)"]
  by (simp add: example_env_def terminal_env_def example_event_def processEvent_def
        decryptEvent_def enqueue_retry_def isDecryptionErrorRetryable_def EventEncrypted_def
        Let_def)

section \<open>Properties of the cross-signing export\<close>











end
